theory Spec2Isabelle
  imports Main
begin

section \<open>Results collector (engine/results.ts)\<close>

text \<open>
  \<^verbatim>\<open>ResultLevel = "message" | "warn" | "fail"\<close> and the \<^verbatim>\<open>ReviewResult\<close> and
  \<^verbatim>\<open>ReviewResults\<close> interfaces of dsl/types.ts. An optional field is an \<open>option\<close>.
\<close>

datatype ResultLevel = Level_message | Level_warn | Level_fail

record ReviewResult =
  level :: ResultLevel
  message :: string
  file' :: "string option"
  line :: "int option"

record ReviewResults =
  messages :: "ReviewResult list"
  warnings :: "ReviewResult list"
  failures :: "ReviewResult list"
  markdowns :: "string list"

text \<open>
  The class \<^verbatim>\<open>ResultsCollector\<close> has the single private field \<^verbatim>\<open>results\<close>, so the
  state of a collector is a \<open>ReviewResults\<close> value; each method takes the state and, when
  it mutates, returns the new one. \<^verbatim>\<open>push\<close> appends at the end.
\<close>

definition reset :: "ReviewResults \<Rightarrow> ReviewResults" where
  "reset c = \<lparr>messages = [], warnings = [], failures = [], markdowns = []\<rparr>"

definition addMessage :: "string \<Rightarrow> string option \<Rightarrow> int option \<Rightarrow> ReviewResults \<Rightarrow> ReviewResults" where
  "addMessage msg f l c =
     c\<lparr>messages := messages c @ [\<lparr>level = Level_message, message = msg, file' = f, line = l\<rparr>]\<rparr>"

definition addWarning :: "string \<Rightarrow> string option \<Rightarrow> int option \<Rightarrow> ReviewResults \<Rightarrow> ReviewResults" where
  "addWarning msg f l c =
     c\<lparr>warnings := warnings c @ [\<lparr>level = Level_warn, message = msg, file' = f, line = l\<rparr>]\<rparr>"

definition addFailure :: "string \<Rightarrow> string option \<Rightarrow> int option \<Rightarrow> ReviewResults \<Rightarrow> ReviewResults" where
  "addFailure msg f l c =
     c\<lparr>failures := failures c @ [\<lparr>level = Level_fail, message = msg, file' = f, line = l\<rparr>]\<rparr>"

definition addMarkdown :: "string \<Rightarrow> ReviewResults \<Rightarrow> ReviewResults" where
  "addMarkdown content c = c\<lparr>markdowns := markdowns c @ [content]\<rparr>"

definition hasFailures :: "ReviewResults \<Rightarrow> bool" where
  "hasFailures c = (length (failures c) > 0)"

definition hasWarnings :: "ReviewResults \<Rightarrow> bool" where
  "hasWarnings c = (length (warnings c) > 0)"

definition getTotalCount :: "ReviewResults \<Rightarrow> nat" where
  "getTotalCount c = length (messages c) + length (warnings c) + length (failures c)"

definition getExitCode :: "ReviewResults \<Rightarrow> int" where
  "getExitCode c = (if hasFailures c then 1 else 0)"

text \<open>
  A sequence of calls of the four append operations, as a rule performs them, and its
  effect on a collector, call after call.
\<close>

datatype collector_call =
    AddMessage string "string option" "int option"
  | AddWarning string "string option" "int option"
  | AddFailure string "string option" "int option"
  | AddMarkdown string

fun apply_call :: "collector_call \<Rightarrow> ReviewResults \<Rightarrow> ReviewResults" where
  "apply_call (AddMessage msg f l) c = addMessage msg f l c"
| "apply_call (AddWarning msg f l) c = addWarning msg f l c"
| "apply_call (AddFailure msg f l) c = addFailure msg f l c"
| "apply_call (AddMarkdown content) c = addMarkdown content c"

fun apply_calls :: "collector_call list \<Rightarrow> ReviewResults \<Rightarrow> ReviewResults" where
  "apply_calls [] c = c"
| "apply_calls (x # xs) c = apply_calls xs (apply_call x c)"

fun is_failure_call :: "collector_call \<Rightarrow> bool" where
  "is_failure_call (AddFailure msg f l) = True"
| "is_failure_call other = False"


section \<open>Thrown values\<close>

text \<open>
  What a JavaScript \<^verbatim>\<open>throw\<close> (or a rejected promise) carries, by what the code below
  does with it (\<^verbatim>\<open>instanceof Error\<close>, reading \<^verbatim>\<open>message\<close>, printing \<^verbatim>\<open>message\<close> and
  \<^verbatim>\<open>stack\<close> in a template literal, \<^verbatim>\<open>String(value)\<close>):
  \<^item> \<open>ErrorInstance msg st\<close>: an instance of \<^verbatim>\<open>Error\<close> whose \<^verbatim>\<open>message\<close> is the string
    \<open>msg\<close> and whose \<^verbatim>\<open>stack\<close> is a string or undefined (\<open>None\<close>);
  \<^item> \<open>NonError v\<close>: a value that is not an \<^verbatim>\<open>Error\<close> and that \<^verbatim>\<open>String(value)\<close> converts
    to \<open>v\<close>;
  \<^item> \<open>ErrorUnprintable m t\<close>: an instance of \<^verbatim>\<open>Error\<close> that a template literal cannot
    print: converting its \<^verbatim>\<open>message\<close> or its \<^verbatim>\<open>stack\<close> to a string throws \<open>t\<close> (the
    property is a symbol, or an object whose conversion throws). \<open>m\<close> is the message when
    it is a string, so that it is the stack that cannot be printed; \<open>None\<close> when the message
    itself is the symbol or object (which has no \<^verbatim>\<open>includes\<close> method);
  \<^item> \<open>NonErrorUnprintable t\<close>: a value that is not an \<^verbatim>\<open>Error\<close> and on which
    \<^verbatim>\<open>String(value)\<close> throws \<open>t\<close>, as on \<^verbatim>\<open>Object.create(null)\<close>, where \<open>t\<close> is a TypeError.
\<close>

datatype thrown =
    ErrorInstance string "string option"
  | NonError string
  | ErrorUnprintable "string option" thrown
  | NonErrorUnprintable thrown

text \<open>The thrown values whose text a template literal or \<^verbatim>\<open>String\<close> can produce.\<close>

fun printable :: "thrown \<Rightarrow> bool" where
  "printable (ErrorInstance msg st) = True"
| "printable (NonError v) = True"
| "printable (ErrorUnprintable m t) = False"
| "printable (NonErrorUnprintable t) = False"

text \<open>
  \<^verbatim>\<open>new Error(msg)\<close> where this code constructs the error itself. The stack of such an
  error is the runtime's; no function here reads it, and the model leaves it out.
\<close>

definition new_Error :: "string \<Rightarrow> thrown" where
  "new_Error msg = ErrorInstance msg None"

text \<open>\<^verbatim>\<open>String.prototype.includes\<close> and \<^verbatim>\<open>endsWith\<close>.\<close>

fun startsWith :: "string \<Rightarrow> string \<Rightarrow> bool" where
  "startsWith s [] = True"
| "startsWith [] (c # cs) = False"
| "startsWith (x # xs) (c # cs) = (x = c \<and> startsWith xs cs)"

fun string_includes :: "string \<Rightarrow> string \<Rightarrow> bool" where
  "string_includes [] sub = (sub = [])"
| "string_includes (x # xs) sub = (startsWith (x # xs) sub \<or> string_includes xs sub)"

definition endsWith :: "string \<Rightarrow> string \<Rightarrow> bool" where
  "endsWith s suffix = startsWith (rev s) (rev suffix)"

text \<open>JavaScript truthiness of \<^verbatim>\<open>string | undefined\<close>: defined and not empty.\<close>

fun truthy :: "string option \<Rightarrow> bool" where
  "truthy None = False"
| "truthy (Some s) = (s \<noteq> [])"


section \<open>Change model (dsl/git.ts)\<close>

text \<open>
  The entries of simple-git's \<^verbatim>\<open>DiffResult.files\<close>: a text file carries \<^verbatim>\<open>file\<close>,
  \<^verbatim>\<open>changes\<close>, \<^verbatim>\<open>insertions\<close>, \<^verbatim>\<open>deletions\<close> (and \<^verbatim>\<open>binary: false\<close>); a binary file
  carries \<^verbatim>\<open>file\<close>, \<^verbatim>\<open>before\<close>, \<^verbatim>\<open>after\<close> (and \<^verbatim>\<open>binary: true\<close>). Line counts are
  natural numbers. An entry of \<^verbatim>\<open>LogResult.all\<close> carries \<^verbatim>\<open>hash\<close>, \<^verbatim>\<open>date\<close>,
  \<^verbatim>\<open>message\<close>, \<^verbatim>\<open>author_name\<close>.
\<close>

datatype DiffFile =
    DiffResultTextFile (file_of: string) nat nat nat
  | DiffResultBinaryFile (file_of: string) nat nat

datatype LogEntry = LogEntry (hash: string) (log_date: string) (log_message: string) (author_name: string)

record GitCommit =
  sha :: string
  author :: string
  date :: string
  commit_message :: string

record GitDiff =
  diff_file :: string
  additions :: nat
  deletions :: nat
  changes :: nat

text \<open>
  The version-control backend (the \<^verbatim>\<open>SimpleGit\<close> object): what \<^verbatim>\<open>diffSummary([base, "HEAD"])\<close>
  and \<^verbatim>\<open>log({from: base, to: "HEAD"})\<close> answer for a base reference; \<open>Inl\<close> is a rejected
  promise.
\<close>

record SimpleGit =
  diffSummary :: "string \<Rightarrow> thrown + DiffFile list"
  log :: "string \<Rightarrow> thrown + LogEntry list"

text \<open>The public fields of the class \<^verbatim>\<open>Git\<close>; \<open>new_Git\<close> is the state after the constructor.\<close>

record Git =
  modified_files :: "string list"
  created_files :: "string list"
  deleted_files :: "string list"
  commits :: "GitCommit list"
  diffs :: "GitDiff list"

definition new_Git :: Git where
  "new_Git = \<lparr>modified_files = [], created_files = [], deleted_files = [], commits = [], diffs = []\<rparr>"

text \<open>
  The body of the loop \<^verbatim>\<open>for (const file of diffSummary.files)\<close> of \<^verbatim>\<open>Git.initialize\<close>:
  a binary entry is skipped (\<^verbatim>\<open>continue\<close>); a text entry is pushed on at most one bucket
  and then always on \<^verbatim>\<open>diffs\<close>.
\<close>

fun categorize :: "DiffFile \<Rightarrow> Git \<Rightarrow> Git" where
  "categorize (DiffResultBinaryFile f before after) g = g"
| "categorize (DiffResultTextFile f chg insertions dels) g =
     (let g1 =
        (if insertions > 0 \<and> dels = 0 then g\<lparr>created_files := created_files g @ [f]\<rparr>
         else if dels > 0 \<and> insertions = 0 then g\<lparr>deleted_files := deleted_files g @ [f]\<rparr>
         else if insertions > 0 \<or> dels > 0 then g\<lparr>modified_files := modified_files g @ [f]\<rparr>
         else g)
      in g1\<lparr>diffs := diffs g1 @
           [\<lparr>diff_file = f, additions = insertions, deletions = dels, changes = chg\<rparr>]\<rparr>)"

fun categorize_files :: "DiffFile list \<Rightarrow> Git \<Rightarrow> Git" where
  "categorize_files [] g = g"
| "categorize_files (f # fs) g = categorize_files fs (categorize f g)"

text \<open>
  \<^verbatim>\<open>Git.initialize(base)\<close>. The whole body is inside \<^verbatim>\<open>try\<close>; the \<^verbatim>\<open>catch\<close> logs and
  returns, so the object keeps whatever was written before the backend failed.
\<close>

definition Git_initialize :: "SimpleGit \<Rightarrow> string \<Rightarrow> Git \<Rightarrow> Git" where
  "Git_initialize backend base g =
     (case diffSummary backend base of
        Inl err \<Rightarrow> g
      | Inr files \<Rightarrow>
          (let g1 = categorize_files files g in
           case log backend base of
             Inl err \<Rightarrow> g1
           | Inr entries \<Rightarrow>
               g1\<lparr>commits :=
                    map (\<lambda>c. \<lparr>sha = hash c, author = author_name c, date = log_date c,
                               commit_message = log_message c\<rparr>) entries\<rparr>))"

text \<open>In how many of the three buckets a path occurs.\<close>

definition bucket_count :: "Git \<Rightarrow> string \<Rightarrow> nat" where
  "bucket_count g p =
     (if p \<in> set (created_files g) then 1 else 0) +
     (if p \<in> set (modified_files g) then 1 else 0) +
     (if p \<in> set (deleted_files g) then 1 else 0)"


subsection \<open>Glob matching (the micromatch dependency)\<close>

text \<open>
  micromatch and its matcher picomatch are npm dependencies, not code of this repository.
  The compiler of one glob is a parameter: \<open>picomatch glob\<close> is \<open>Inl\<close> when compiling
  throws (picomatch rejects the empty string), else the compiled matcher: whether the glob
  is a negation (a leading \<^verbatim>\<open>!\<close>), and the test of one path.
\<close>

record matcher =
  negated :: bool
  isMatch :: "string \<Rightarrow> bool"

type_synonym picomatch = "string \<Rightarrow> thrown + matcher"

text \<open>
  micromatch 4's main function \<^verbatim>\<open>micromatch(list, patterns)\<close>, called without options.
  Its three \<^verbatim>\<open>Set\<close>s are lists without duplicates in insertion order. For each pattern
  in turn and each item of the list: the item is recorded in \<^verbatim>\<open>items\<close>; when the pattern
  is a negation and the item matches the negated glob (the matcher says no), the item is
  added to \<^verbatim>\<open>omit\<close>; when the pattern is not a negation and the item matches, it is taken
  out of \<^verbatim>\<open>omit\<close> and added to \<^verbatim>\<open>keep\<close>. The result is \<^verbatim>\<open>keep\<close> (or \<^verbatim>\<open>items\<close> when
  every pattern is a negation) without the members of \<^verbatim>\<open>omit\<close>.
\<close>

definition set_add :: "string \<Rightarrow> string list \<Rightarrow> string list" where
  "set_add x s = (if x \<in> set s then s else s @ [x])"

definition set_delete :: "string \<Rightarrow> string list \<Rightarrow> string list" where
  "set_delete x s = filter (\<lambda>y. y \<noteq> x) s"

record mm_state =
  omit :: "string list"
  keep :: "string list"
  items :: "string list"
  negatives :: nat

fun scan_list :: "matcher \<Rightarrow> string list \<Rightarrow> mm_state \<Rightarrow> mm_state" where
  "scan_list m [] st = st"
| "scan_list m (item # rest) st =
     (let st1 = st\<lparr>items := set_add item (items st)\<rparr>;
          matched = isMatch m item;
          match = (if negated m then \<not> matched else matched)
      in scan_list m rest
           (if \<not> match then st1
            else if negated m then st1\<lparr>omit := set_add item (omit st1)\<rparr>
            else st1\<lparr>omit := set_delete item (omit st1), keep := set_add item (keep st1)\<rparr>))"

fun scan_patterns :: "picomatch \<Rightarrow> string list \<Rightarrow> string list \<Rightarrow> mm_state \<Rightarrow> thrown + mm_state" where
  "scan_patterns pm [] list st = Inr st"
| "scan_patterns pm (p # ps) list st =
     (case pm p of
        Inl err \<Rightarrow> Inl err
      | Inr m \<Rightarrow>
          scan_patterns pm ps list
            (scan_list m list (if negated m then st\<lparr>negatives := negatives st + 1\<rparr> else st)))"

definition micromatch :: "picomatch \<Rightarrow> string list \<Rightarrow> string list \<Rightarrow> thrown + string list" where
  "micromatch pm list patterns =
     (case scan_patterns pm patterns list \<lparr>omit = [], keep = [], items = [], negatives = 0\<rparr> of
        Inl err \<Rightarrow> Inl err
      | Inr st \<Rightarrow>
          (let result = (if negatives st = length patterns then items st else keep st)
           in Inr (filter (\<lambda>item. item \<notin> set (omit st)) result)))"

text \<open>
  The matchers picomatch compiles for globs without any glob metacharacter (letters,
  digits, \<^verbatim>\<open>.\<close>, \<^verbatim>\<open>-\<close>, \<^verbatim>\<open>_\<close> and \<^verbatim>\<open>/\<close>), with an optional leading \<^verbatim>\<open>!\<close>: such a glob
  matches the path equal to it, and its negation matches every other non-empty path
  (paths have no line break). It serves as the concrete compiler at the example inputs below.
\<close>

definition literal_picomatch :: picomatch where
  "literal_picomatch glob =
     (if glob = [] then Inl (new_Error ''Expected pattern to be a non-empty string'')
      else if hd glob = CHR ''!''
      then Inr \<lparr>negated = True,
                isMatch = (\<lambda>input. input \<noteq> [] \<and> (input = glob \<or> input \<noteq> tl glob))\<rparr>
      else Inr \<lparr>negated = False, isMatch = (\<lambda>input. input = glob)\<rparr>)"


subsection \<open>fileMatch and hasChanges\<close>

text \<open>
  The argument \<^verbatim>\<open>pattern: string | string[]\<close> and the object \<^verbatim>\<open>fileMatch\<close> returns. Its
  \<^verbatim>\<open>matches\<close> and \<^verbatim>\<open>getAll\<close> are closures; \<^verbatim>\<open>matches\<close> reads the three buckets of the
  \<^verbatim>\<open>Git\<close> object itself, not the matched subsets.
\<close>

datatype pattern_arg = Single string | Multiple "string list"

record FileMatch =
  edited :: "string list"
  created :: "string list"
  deleted :: "string list"
  matches :: "string \<Rightarrow> thrown + bool"
  getAll :: "unit \<Rightarrow> string list"

definition fileMatch :: "picomatch \<Rightarrow> Git \<Rightarrow> pattern_arg \<Rightarrow> thrown + FileMatch" where
  "fileMatch pm g pattern =
     (let patterns = (case pattern of Multiple ps \<Rightarrow> ps | Single p \<Rightarrow> [p]) in
      case micromatch pm (modified_files g) patterns of
        Inl err \<Rightarrow> Inl err
      | Inr matchedEdited \<Rightarrow>
     (case micromatch pm (created_files g) patterns of
        Inl err \<Rightarrow> Inl err
      | Inr matchedCreated \<Rightarrow>
     (case micromatch pm (deleted_files g) patterns of
        Inl err \<Rightarrow> Inl err
      | Inr matchedDeleted \<Rightarrow>
          Inr \<lparr>edited = matchedEdited, created = matchedCreated, deleted = matchedDeleted,
               matches = (\<lambda>p.
                 (let allFiles = modified_files g @ created_files g @ deleted_files g in
                  case micromatch pm allFiles [p] of
                    Inl err \<Rightarrow> Inl err
                  | Inr r \<Rightarrow> Inr (length r > 0))),
               getAll = (\<lambda>u. matchedEdited @ matchedCreated)\<rparr>)))"

definition getChangedFiles :: "Git \<Rightarrow> string list" where
  "getChangedFiles g = modified_files g @ created_files g"

definition hasChanges :: "picomatch \<Rightarrow> Git \<Rightarrow> pattern_arg \<Rightarrow> thrown + bool" where
  "hasChanges pm g pattern =
     (case fileMatch pm g pattern of
        Inl err \<Rightarrow> Inl err
      | Inr match \<Rightarrow>
          Inr (length (edited match) > 0 \<or> length (created match) > 0 \<or> length (deleted match) > 0))"



section \<open>Pull-request adapter (dsl/github.ts)\<close>

record GitHubPR =
  pr_number :: int
  pr_title :: string
  pr_body :: "string option"
  pr_state :: string
  pr_html_url :: string
  pr_additions :: nat
  pr_deletions :: nat
  pr_changed_files :: nat
  pr_author_login :: string
  pr_author_avatar_url :: string
  pr_author_html_url :: string
  pr_created_at :: string
  pr_updated_at :: string
  pr_merged_at :: "string option"
  pr_base_ref :: string
  pr_base_sha :: string
  pr_head_ref :: string
  pr_head_sha :: string

record GitHubReview =
  review_id :: int
  review_user_login :: string
  review_body :: string
  review_state :: string
  review_submitted_at :: string

record GitHubComment =
  comment_id :: int
  comment_user_login :: string
  comment_body :: string
  comment_created_at :: string
  comment_path :: "string option"
  comment_line :: "int option"

text \<open>
  The hosting API as \<^verbatim>\<open>initialize\<close> sees it: the outcome of each of its four requests,
  already mapped to the DSL's types (\<open>Inl\<close> is a rejected request).
\<close>

record Octokit =
  pulls_get :: "thrown + GitHubPR"
  pulls_listReviews :: "thrown + GitHubReview list"
  issues_listComments :: "thrown + GitHubComment list"
  pulls_listReviewComments :: "thrown + GitHubComment list"

text \<open>
  The public fields of the class \<^verbatim>\<open>GitHub\<close>. \<^verbatim>\<open>pr\<close> is declared \<^verbatim>\<open>pr!: GitHubPR\<close> and is
  undefined until \<^verbatim>\<open>fetchPR\<close> has assigned it. The private \<^verbatim>\<open>owner\<close>, \<^verbatim>\<open>repo\<close> and
  \<^verbatim>\<open>prNumber\<close> only address the requests.
\<close>

record GitHub =
  pr :: "GitHubPR option"
  reviews :: "GitHubReview list"
  comments :: "GitHubComment list"

definition new_GitHub :: GitHub where
  "new_GitHub = \<lparr>pr = None, reviews = [], comments = []\<rparr>"

text \<open>
  \<^verbatim>\<open>extractPRNumberFromRef\<close>: the first match of \<^verbatim>\<open>/refs\/pull\/(\d+)\//\<close> in
  \<^verbatim>\<open>GITHUB_REF\<close>; its group is the longest run of digits after the prefix.
\<close>

definition is_digit :: "char \<Rightarrow> bool" where
  "is_digit c = (c \<in> set ''0123456789'')"

definition match_pull_ref_here :: "string \<Rightarrow> string option" where
  "match_pull_ref_here s =
     (if startsWith s ''refs/pull/''
      then (let rest = drop 10 s; digits = takeWhile is_digit rest
            in if digits \<noteq> [] \<and> startsWith (dropWhile is_digit rest) ''/''
               then Some digits else None)
      else None)"

fun match_pull_ref :: "string \<Rightarrow> string option" where
  "match_pull_ref [] = None"
| "match_pull_ref (c # cs) =
     (case match_pull_ref_here (c # cs) of
        Some d \<Rightarrow> Some d
      | None \<Rightarrow> match_pull_ref cs)"

definition extractPRNumberFromRef :: "(string \<Rightarrow> string option) \<Rightarrow> string option" where
  "extractPRNumberFromRef env =
     (case env ''GITHUB_REF'' of
        None \<Rightarrow> None
      | Some ref \<Rightarrow> (if ref = [] then None else match_pull_ref ref))"

text \<open>
  \<^verbatim>\<open>GitHub.initialize()\<close> mutates the object step by step, so when a step throws the
  object keeps the fields assigned so far: the result is the object together with the
  thrown value, if any.
\<close>

definition fetchPR :: "Octokit \<Rightarrow> GitHub \<Rightarrow> GitHub \<times> thrown option" where
  "fetchPR api gh =
     (case pulls_get api of
        Inl err \<Rightarrow> (gh, Some err)
      | Inr data \<Rightarrow> (gh\<lparr>pr := Some data\<rparr>, None))"

definition fetchReviews :: "Octokit \<Rightarrow> GitHub \<Rightarrow> GitHub \<times> thrown option" where
  "fetchReviews api gh =
     (case pulls_listReviews api of
        Inl err \<Rightarrow> (gh, Some err)
      | Inr data \<Rightarrow> (gh\<lparr>reviews := data\<rparr>, None))"

definition fetchComments :: "Octokit \<Rightarrow> GitHub \<Rightarrow> GitHub \<times> thrown option" where
  "fetchComments api gh =
     (case issues_listComments api of
        Inl err \<Rightarrow> (gh, Some err)
      | Inr issueComments \<Rightarrow>
          (case pulls_listReviewComments api of
             Inl err \<Rightarrow> (gh, Some err)
           | Inr reviewComments \<Rightarrow> (gh\<lparr>comments := issueComments @ reviewComments\<rparr>, None)))"

definition GitHub_initialize ::
  "(string \<Rightarrow> string option) \<Rightarrow> Octokit \<Rightarrow> GitHub \<Rightarrow> GitHub \<times> thrown option" where
  "GitHub_initialize env api gh =
     (let githubRepo = env ''GITHUB_REPOSITORY'';
          prNumberStr = (if truthy (env ''GITHUB_PR_NUMBER'') then env ''GITHUB_PR_NUMBER''
                         else extractPRNumberFromRef env)
      in if \<not> truthy githubRepo \<or> \<not> truthy prNumberStr
         then (gh, Some (new_Error
                 ''Missing GitHub environment variables. Set GITHUB_REPOSITORY and GITHUB_PR_NUMBER''))
         else (case fetchPR api gh of
                 (gh1, Some err) \<Rightarrow> (gh1, Some err)
               | (gh1, None) \<Rightarrow>
                   (case fetchReviews api gh1 of
                      (gh2, Some err) \<Rightarrow> (gh2, Some err)
                    | (gh2, None) \<Rightarrow> fetchComments api gh2)))"

text \<open>
  \<^verbatim>\<open>titleMatches(pattern: string | RegExp)\<close>; a regular expression is given by its
  \<^verbatim>\<open>test\<close>. Reading \<^verbatim>\<open>this.pr.title\<close> while \<^verbatim>\<open>pr\<close> is undefined is a TypeError.
\<close>

datatype title_pattern = Substring string | RegExp "string \<Rightarrow> bool"

definition titleMatches :: "GitHub \<Rightarrow> title_pattern \<Rightarrow> thrown + bool" where
  "titleMatches gh pattern =
     (case pr gh of
        None \<Rightarrow> Inl (new_Error ''Cannot read properties of undefined'')
      | Some p \<Rightarrow>
          (case pattern of
             Substring s \<Rightarrow> Inr (string_includes (pr_title p) s)
           | RegExp test \<Rightarrow> Inr (test (pr_title p))))"


section \<open>Review context (dsl/index.ts)\<close>

record ReviewDSL =
  git :: Git
  github :: "GitHub option"
  isGitHub :: bool
  env :: "string \<Rightarrow> string option"

text \<open>
  What the engine reads from outside: the file system and \<^verbatim>\<open>path\<close> module of Node
  (\<open>readable\<close> is whether \<^verbatim>\<open>fs.accessSync(p, R_OK)\<close> returns), the working directory and
  environment of the process, the git backend of a repository path, the hosting API, and
  the module loader (\<^verbatim>\<open>import()\<close> of the file at a path).
\<close>

text \<open>
  The reporting functions of dsl/functions.ts that a rule can call, and a rule function:
  given the context it performs a sequence of such calls and then returns (\<open>None\<close>) or
  throws (its promise rejects).
\<close>

datatype dsl_call =
    Call_message string "string option" "int option"
  | Call_warn string "string option" "int option"
  | Call_fail string "string option" "int option"
  | Call_markdown string
  | Call_resetResults

type_synonym ReviewFunction = "ReviewDSL \<Rightarrow> dsl_call list \<times> thrown option"

text \<open>
  The default export of a loaded module: absent (or falsy), a value that is not a
  function, or a function.
\<close>

datatype default_export = NoDefault | NotAFunction | DefaultFunction ReviewFunction

record js_module =
  default :: default_export

record world =
  existsSync :: "string \<Rightarrow> bool"
  readable :: "string \<Rightarrow> bool"
  path_isAbsolute :: "string \<Rightarrow> bool"
  path_resolve :: "string \<Rightarrow> string \<Rightarrow> string"
  path_join :: "string \<Rightarrow> string \<Rightarrow> string"
  cwd :: string
  process_env :: "string \<Rightarrow> string option"
  simpleGit :: "string \<Rightarrow> SimpleGit"
  octokit :: Octokit
  import_module :: "string \<Rightarrow> thrown + js_module"

text \<open>
  \<^verbatim>\<open>createReviewContext\<close>. In the \<^verbatim>\<open>try\<close> block the variable \<^verbatim>\<open>github\<close> is assigned the
  new object before \<^verbatim>\<open>initialize\<close> is awaited, and the \<^verbatim>\<open>catch\<close> only warns: whether
  \<^verbatim>\<open>initialize\<close> throws or not, the variable holds the object.
\<close>

definition createReviewContext :: "world \<Rightarrow> string \<Rightarrow> bool \<Rightarrow> string \<Rightarrow> ReviewDSL" where
  "createReviewContext w baseBranch' enableGitHub' repoPath =
     (let git0 = Git_initialize (simpleGit w repoPath) baseBranch' new_Git;
          isGitHub0 = (truthy (process_env w ''GITHUB_ACTIONS'') \<and>
                       truthy (process_env w ''GITHUB_REPOSITORY''));
          github0 =
            (if enableGitHub' \<and> isGitHub0
             then (case GitHub_initialize (process_env w) (octokit w) new_GitHub of
                     (gh, None) \<Rightarrow> Some gh
                   | (gh, Some err) \<Rightarrow> Some gh)
             else None)
      in \<lparr>git = git0, github = github0, isGitHub = isGitHub0, env = process_env w\<rparr>)"


section \<open>Reporting functions (dsl/functions.ts)\<close>

text \<open>
  Collectors are objects, and two references may or may not name the same one: the store
  maps each collector object to its state. \<open>globalResultsCollector\<close> is the singleton of
  engine/results.ts; \<open>customCollector\<close> is an object a caller constructed and passed as
  \<^verbatim>\<open>options.resultsCollector\<close>. The reporting functions always write to the singleton.
\<close>

datatype collector_ref = globalResultsCollector | customCollector

type_synonym store = "collector_ref \<Rightarrow> ReviewResults"

definition dsl_message :: "string \<Rightarrow> string option \<Rightarrow> int option \<Rightarrow> store \<Rightarrow> store" where
  "dsl_message msg f l \<sigma> =
     \<sigma>(globalResultsCollector := addMessage msg f l (\<sigma> globalResultsCollector))"

definition dsl_warn :: "string \<Rightarrow> string option \<Rightarrow> int option \<Rightarrow> store \<Rightarrow> store" where
  "dsl_warn msg f l \<sigma> =
     \<sigma>(globalResultsCollector := addWarning msg f l (\<sigma> globalResultsCollector))"

definition dsl_fail :: "string \<Rightarrow> string option \<Rightarrow> int option \<Rightarrow> store \<Rightarrow> store" where
  "dsl_fail msg f l \<sigma> =
     \<sigma>(globalResultsCollector := addFailure msg f l (\<sigma> globalResultsCollector))"

definition dsl_markdown :: "string \<Rightarrow> store \<Rightarrow> store" where
  "dsl_markdown content \<sigma> =
     \<sigma>(globalResultsCollector := addMarkdown content (\<sigma> globalResultsCollector))"

definition resetResults :: "store \<Rightarrow> store" where
  "resetResults \<sigma> = \<sigma>(globalResultsCollector := reset (\<sigma> globalResultsCollector))"

fun run_dsl_call :: "dsl_call \<Rightarrow> store \<Rightarrow> store" where
  "run_dsl_call (Call_message msg f l) \<sigma> = dsl_message msg f l \<sigma>"
| "run_dsl_call (Call_warn msg f l) \<sigma> = dsl_warn msg f l \<sigma>"
| "run_dsl_call (Call_fail msg f l) \<sigma> = dsl_fail msg f l \<sigma>"
| "run_dsl_call (Call_markdown content) \<sigma> = dsl_markdown content \<sigma>"
| "run_dsl_call Call_resetResults \<sigma> = resetResults \<sigma>"

fun run_dsl_calls :: "dsl_call list \<Rightarrow> store \<Rightarrow> store" where
  "run_dsl_calls [] \<sigma> = \<sigma>"
| "run_dsl_calls (x # xs) \<sigma> = run_dsl_calls xs (run_dsl_call x \<sigma>)"


section \<open>Rule loader (engine/loader.ts)\<close>

record ReviewFileInfo =
  path :: string
  absolutePath :: string
  exists :: bool
  isTypeScript :: bool

text \<open>
  The loop \<^verbatim>\<open>for (const ext of extensions)\<close> of \<^verbatim>\<open>findReviewFile\<close>, which returns at the
  first candidate that exists.
\<close>

fun probe_extensions :: "world \<Rightarrow> string \<Rightarrow> string list \<Rightarrow> ReviewFileInfo option" where
  "probe_extensions w projectRoot' [] = None"
| "probe_extensions w projectRoot' (ext # exts) =
     (let fileName = ''reviewfile'' @ ext;
          filePath = path_join w projectRoot' fileName
      in if existsSync w filePath
         then Some \<lparr>path = fileName, absolutePath = filePath, exists = True,
                    isTypeScript = (ext = ''.ts'' \<or> ext = ''.mts'')\<rparr>
         else probe_extensions w projectRoot' exts)"

definition findReviewFile :: "world \<Rightarrow> string option \<Rightarrow> string \<Rightarrow> ReviewFileInfo" where
  "findReviewFile w providedPath projectRoot' =
     (case (if truthy providedPath then providedPath else None) of
        Some p \<Rightarrow>
          (let absPath = (if path_isAbsolute w p then p else path_resolve w projectRoot' p)
           in \<lparr>path = p, absolutePath = absPath, exists = existsSync w absPath,
               isTypeScript = endsWith absPath ''.ts''\<rparr>)
      | None \<Rightarrow>
          (case probe_extensions w projectRoot' [''.ts'', ''.js'', ''.mts'', ''.mjs''] of
             Some info \<Rightarrow> info
           | None \<Rightarrow>
               \<lparr>path = ''reviewfile.ts'', absolutePath = path_join w projectRoot' ''reviewfile.ts'',
                exists = False, isTypeScript = True\<rparr>))"

definition must_export_message :: string where
  "must_export_message =
     ''Reviewfile must export a default async function.'' @ [CHR 0x0A, CHR 0x0A] @
     ''Example:'' @ [CHR 0x0A] @ ''  export default async function(review) {'' @
     [CHR 0x0A] @ ''    warn('' @ [CHR 0x22] @ ''Example warning'' @ [CHR 0x22] @ '');'' @
     [CHR 0x0A] @ ''  }''"

text \<open>
  The \<^verbatim>\<open>catch\<close> block of \<^verbatim>\<open>loadReviewFile\<close>: from the caught value to the value it throws.
  For an \<^verbatim>\<open>Error\<close> it reads \<^verbatim>\<open>error.message.includes\<close>, which needs the message to be a
  string (calling the missing method is a TypeError), and never the stack; for any other
  value it converts nothing.
\<close>

definition loadReviewFile_enhance :: "string \<Rightarrow> string \<Rightarrow> thrown \<Rightarrow> thrown" where
  "loadReviewFile_enhance filePath msg err =
     (if string_includes msg ''Cannot find module''
      then new_Error (''Failed to load reviewfile: '' @ filePath @
            [CHR 0x0A] @ ''File not found or could not be imported.'')
      else if string_includes msg ''Unexpected token''
      then new_Error (''Failed to parse reviewfile: '' @ filePath @
            [CHR 0x0A] @
            ''Syntax error in the file. Please check your TypeScript/JavaScript syntax.'' @
            [CHR 0x0A, CHR 0x0A] @ ''Original error: '' @ msg)
      else err)"

definition loadReviewFile_catch :: "string \<Rightarrow> thrown \<Rightarrow> thrown" where
  "loadReviewFile_catch filePath err =
     (case err of
        ErrorInstance msg st \<Rightarrow> loadReviewFile_enhance filePath msg err
      | ErrorUnprintable (Some msg) t \<Rightarrow> loadReviewFile_enhance filePath msg err
      | ErrorUnprintable None t \<Rightarrow> new_Error ''error.message.includes is not a function''
      | NonError v \<Rightarrow> new_Error (''Unknown error loading reviewfile: '' @ filePath)
      | NonErrorUnprintable t \<Rightarrow> new_Error (''Unknown error loading reviewfile: '' @ filePath))"

definition loadReviewFile :: "world \<Rightarrow> string \<Rightarrow> thrown + ReviewFunction" where
  "loadReviewFile w filePath =
     (case import_module w filePath of
        Inl err \<Rightarrow> Inl (loadReviewFile_catch filePath err)
      | Inr m \<Rightarrow>
          (case default m of
             DefaultFunction f \<Rightarrow> Inr f
           | other \<Rightarrow> Inl (loadReviewFile_catch filePath (new_Error must_export_message))))"

definition not_found_help :: string where
  "not_found_help =
     [CHR 0x0A, CHR 0x0A] @ ''Create a reviewfile.ts to define your review rules:'' @
     [CHR 0x0A, CHR 0x0A] @ ''  import { warn, fail, message } from '' @ [CHR 0x27] @
     ''code-review-ai'' @ [CHR 0x27] @ '';'' @ [CHR 0x0A, CHR 0x0A] @
     ''  export default async function(review) {'' @ [CHR 0x0A] @
     ''    // Your review logic here'' @ [CHR 0x0A] @ ''    if (review.git.fileMatch('' @
     [CHR 0x22] @ ''package.json'' @ [CHR 0x22] @ '').edited.length > 0) {'' @ [CHR 0x0A] @
     ''      warn('' @ [CHR 0x22] @ ''package.json was modified'' @ [CHR 0x22] @ '');'' @
     [CHR 0x0A] @ ''    }'' @ [CHR 0x0A] @ ''  }'' @ [CHR 0x0A, CHR 0x0A] @
     ''Or run: review-ai init''"

text \<open>\<^verbatim>\<open>validateReviewFile\<close>: \<open>None\<close> when it returns, else the error it throws.\<close>

definition validateReviewFile :: "world \<Rightarrow> ReviewFileInfo \<Rightarrow> thrown option" where
  "validateReviewFile w info =
     (if \<not> exists info
      then Some (new_Error (''Reviewfile not found: '' @ path info @ not_found_help))
      else if \<not> readable w (absolutePath info)
      then Some (new_Error (''Reviewfile is not readable: '' @ path info @
                   [CHR 0x0A] @ ''Please check file permissions.''))
      else None)"


section \<open>Evaluator (engine/evaluator.ts)\<close>

record EvaluatorOptions =
  reviewFilePath :: "string option"
  baseBranch :: "string option"
  enableGitHub :: "bool option"
  projectRoot :: "string option"
  resultsCollector :: "collector_ref option"

text \<open>The field \<^verbatim>\<open>this.options\<close> of a \<^verbatim>\<open>RuleEvaluator\<close>, as the constructor fills it.\<close>

record RuleEvaluator =
  options_reviewFilePath :: string
  options_baseBranch :: string
  options_enableGitHub :: bool
  options_projectRoot :: string
  options_resultsCollector :: collector_ref

definition new_RuleEvaluator :: "world \<Rightarrow> EvaluatorOptions \<Rightarrow> RuleEvaluator" where
  "new_RuleEvaluator w opts =
     \<lparr>options_reviewFilePath = (case reviewFilePath opts of Some p \<Rightarrow> p | None \<Rightarrow> []),
      options_baseBranch =
        (case baseBranch opts of Some b \<Rightarrow> (if b = [] then ''main'' else b) | None \<Rightarrow> ''main''),
      options_enableGitHub = (enableGitHub opts \<noteq> Some False),
      options_projectRoot =
        (case projectRoot opts of Some r \<Rightarrow> (if r = [] then cwd w else r) | None \<Rightarrow> cwd w),
      options_resultsCollector =
        (case resultsCollector opts of Some c \<Rightarrow> c | None \<Rightarrow> globalResultsCollector)\<rparr>"

text \<open>
  \<^verbatim>\<open>EvaluationResult\<close>; its \<^verbatim>\<open>results\<close> is the evaluator's collector object, read in the
  store that \<^verbatim>\<open>evaluate\<close> leaves.
\<close>

record EvaluationResult =
  review :: ReviewDSL
  results :: collector_ref
  reviewFile :: ReviewFileInfo
  passed :: bool
  exitCode :: int

text \<open>
  \<^verbatim>\<open>executeReviewFile\<close>: the rule runs (its calls reach the store), and what it throws is
  caught. The \<^verbatim>\<open>catch\<close> block first builds the argument of \<^verbatim>\<open>addFailure\<close>, with a template
  literal over \<^verbatim>\<open>error.message\<close> and \<^verbatim>\<open>error.stack\<close> or with \<^verbatim>\<open>String(error)\<close>; it has no
  \<^verbatim>\<open>try\<close> of its own, so when that conversion throws, nothing is recorded and the thrown
  value leaves \<^verbatim>\<open>executeReviewFile\<close>. The result is the value that leaves it, if any, and
  the store. A template literal prints an undefined \<^verbatim>\<open>stack\<close> as \<^verbatim>\<open>undefined\<close>.
\<close>

definition executeReviewFile ::
  "RuleEvaluator \<Rightarrow> ReviewFunction \<Rightarrow> ReviewDSL \<Rightarrow> store \<Rightarrow> thrown option \<times> store" where
  "executeReviewFile ev reviewFunction rv \<sigma> =
     (case reviewFunction rv of
        (calls, outcome) \<Rightarrow>
          (let \<sigma>1 = run_dsl_calls calls \<sigma>; c = options_resultsCollector ev in
           case outcome of
             None \<Rightarrow> (None, \<sigma>1)
           | Some (ErrorInstance msg st) \<Rightarrow>
               (None,
                \<sigma>1(c := addFailure
                      (''Review execution failed: '' @ msg @
                       [CHR 0x0A, CHR 0x0A] @ ''Stack trace:'' @ [CHR 0x0A] @
                       (case st of Some trace \<Rightarrow> trace | None \<Rightarrow> ''undefined''))
                      None None (\<sigma>1 c)))
           | Some (ErrorUnprintable m t) \<Rightarrow> (Some t, \<sigma>1)
           | Some (NonError v) \<Rightarrow>
               (None,
                \<sigma>1(c := addFailure (''Review execution failed with unknown error: '' @ v)
                      None None (\<sigma>1 c)))
           | Some (NonErrorUnprintable t) \<Rightarrow> (Some t, \<sigma>1)))"

text \<open>
  \<^verbatim>\<open>evaluate\<close>: the result, or the error that leaves it, together with the store. An
  error of \<^verbatim>\<open>validateReviewFile\<close>, of \<^verbatim>\<open>loadReviewFile\<close> or of \<^verbatim>\<open>executeReviewFile\<close> is
  not caught.
\<close>

definition evaluate :: "world \<Rightarrow> RuleEvaluator \<Rightarrow> store \<Rightarrow> (thrown + EvaluationResult) \<times> store" where
  "evaluate w ev \<sigma> =
     (let c = options_resultsCollector ev;
          \<sigma>0 = \<sigma>(c := reset (\<sigma> c));
          rf = findReviewFile w (Some (options_reviewFilePath ev)) (options_projectRoot ev)
      in case validateReviewFile w rf of
           Some err \<Rightarrow> (Inl err, \<sigma>0)
         | None \<Rightarrow>
             (let rv = createReviewContext w (options_baseBranch ev) (options_enableGitHub ev)
                         (options_projectRoot ev)
              in case loadReviewFile w (absolutePath rf) of
                   Inl err \<Rightarrow> (Inl err, \<sigma>0)
                 | Inr reviewFunction \<Rightarrow>
                     (case executeReviewFile ev reviewFunction rv \<sigma>0 of
                        (Some err, \<sigma>1) \<Rightarrow> (Inl err, \<sigma>1)
                      | (None, \<sigma>1) \<Rightarrow>
                          (Inr \<lparr>review = rv, results = c, reviewFile = rf,
                                passed = (\<not> hasFailures (\<sigma>1 c)),
                                exitCode = getExitCode (\<sigma>1 c)\<rparr>, \<sigma>1))))"

definition runReview :: "world \<Rightarrow> EvaluatorOptions \<Rightarrow> store \<Rightarrow> (thrown + EvaluationResult) \<times> store" where
  "runReview w opts \<sigma> = evaluate w (new_RuleEvaluator w opts) \<sigma>"

text \<open>
  The failures that the collector of an evaluation result holds
  (\<^verbatim>\<open>result.results.getResults().failures\<close>); \<open>None\<close> when \<^verbatim>\<open>evaluate\<close> threw.
\<close>

definition result_failures :: "(thrown + EvaluationResult) \<times> store \<Rightarrow> ReviewResult list option" where
  "result_failures out =
     (case out of
        (Inr r, \<sigma>') \<Rightarrow> Some (failures (\<sigma>' (results r)))
      | (Inl err, \<sigma>') \<Rightarrow> None)"


section \<open>Example inputs\<close>

text \<open>A backend that reports one created, one deleted and one modified file.\<close>

definition scenario_backend :: SimpleGit where
  "scenario_backend =
     \<lparr>diffSummary = (\<lambda>base. Inr [DiffResultTextFile ''a.ts'' 10 10 0,
                                  DiffResultTextFile ''b.ts'' 5 0 5,
                                  DiffResultTextFile ''c.ts'' 5 3 2]),
      log = (\<lambda>base. Inr [])\<rparr>"


text \<open>
  A backend that reports one text file with no line inserted and none deleted (an empty
  file added, a mode change, a pure rename).
\<close>

definition zero_change_backend :: SimpleGit where
  "zero_change_backend =
     \<lparr>diffSummary = (\<lambda>base. Inr [DiffResultTextFile ''empty.txt'' 0 0 0]),
      log = (\<lambda>base. Inr [])\<rparr>"

text \<open>The change set of the scenario backend against \<^verbatim>\<open>main\<close>.\<close>

definition scenario_git :: Git where
  "scenario_git = Git_initialize scenario_backend ''main'' new_Git"

text \<open>
  A process in the directory \<^verbatim>\<open>/repo\<close> of a POSIX system, whose paths have no \<^verbatim>\<open>.\<close> or
  \<^verbatim>\<open>..\<close> segment: the files that exist (all readable), the environment, the hosting API,
  and the rule function that every existing file exports. Its git backend is the scenario
  backend.
\<close>

definition example_world ::
  "(string \<Rightarrow> bool) \<Rightarrow> (string \<Rightarrow> string option) \<Rightarrow> Octokit \<Rightarrow> ReviewFunction \<Rightarrow> world" where
  "example_world files env0 api rule =
     \<lparr>existsSync = files, readable = files,
      path_isAbsolute = (\<lambda>p. startsWith p ''/''),
      path_resolve = (\<lambda>root p. if startsWith p ''/'' then p else root @ ''/'' @ p),
      path_join = (\<lambda>a b. a @ ''/'' @ b),
      cwd = ''/repo'',
      process_env = env0,
      simpleGit = (\<lambda>repoPath. scenario_backend),
      octokit = api,
      import_module = (\<lambda>p. if files p then Inr \<lparr>default = DefaultFunction rule\<rparr>
                            else Inl (ErrorInstance (''Cannot find module '' @ p) None))\<rparr>"

text \<open>A hosting API whose every request is rejected.\<close>

definition api_down :: Octokit where
  "api_down =
     \<lparr>pulls_get = Inl (ErrorInstance ''Not Found'' None),
      pulls_listReviews = Inl (ErrorInstance ''Not Found'' None),
      issues_listComments = Inl (ErrorInstance ''Not Found'' None),
      pulls_listReviewComments = Inl (ErrorInstance ''Not Found'' None)\<rparr>"

text \<open>A rule that reports nothing and returns.\<close>

definition silent_rule :: ReviewFunction where
  "silent_rule rv = ([], None)"

text \<open>The store in which both collectors are newly constructed.\<close>

definition fresh_store :: store where
  "fresh_store = (\<lambda>c. \<lparr>messages = [], warnings = [], failures = [], markdowns = []\<rparr>)"

text \<open>The rule of Scenario 2: it calls \<^verbatim>\<open>fail("x")\<close> and then throws an \<^verbatim>\<open>Error\<close>.\<close>

definition failing_rule :: ReviewFunction where
  "failing_rule rv =
     ([Call_fail ''x'' None None], Some (ErrorInstance ''boom'' (Some ''Error: boom'')))"

text \<open>Options that leave every default in place, and options that pass a custom collector.\<close>

definition default_options :: EvaluatorOptions where
  "default_options =
     \<lparr>reviewFilePath = None, baseBranch = None, enableGitHub = None, projectRoot = None,
      resultsCollector = None\<rparr>"

definition custom_collector_options :: EvaluatorOptions where
  "custom_collector_options =
     \<lparr>reviewFilePath = None, baseBranch = None, enableGitHub = None, projectRoot = None,
      resultsCollector = Some customCollector\<rparr>"

text \<open>The example process with \<^verbatim>\<open>/repo/reviewfile.ts\<close> exporting the rule of Scenario 2.\<close>

definition scenario2_world :: world where
  "scenario2_world =
     example_world (\<lambda>p. p = ''/repo/reviewfile.ts'') (\<lambda>v. None) api_down failing_rule"

text \<open>
  A rule that calls \<^verbatim>\<open>fail("x")\<close> and then throws \<^verbatim>\<open>Object.create(null)\<close>, on which
  \<^verbatim>\<open>String\<close> throws a TypeError, and the example process whose \<^verbatim>\<open>/repo/reviewfile.ts\<close>
  exports it.
\<close>

definition unprintable_rule :: ReviewFunction where
  "unprintable_rule rv =
     ([Call_fail ''x'' None None],
      Some (NonErrorUnprintable
              (ErrorInstance ''Cannot convert object to primitive value''
                 (Some ''TypeError: Cannot convert object to primitive value''))))"

definition unprintable_world :: world where
  "unprintable_world =
     example_world (\<lambda>p. p = ''/repo/reviewfile.ts'') (\<lambda>v. None) api_down unprintable_rule"

text \<open>
  The environment of a GitHub Actions run for pull request 7, and a backend whose diff
  summary answers while its log is rejected.
\<close>

definition github_env :: "string \<Rightarrow> string option" where
  "github_env v =
     (if v = ''GITHUB_ACTIONS'' then Some ''true''
      else if v = ''GITHUB_REPOSITORY'' then Some ''rgourley/Velvet''
      else if v = ''GITHUB_PR_NUMBER'' then Some ''7''
      else None)"

definition log_failing_backend :: SimpleGit where
  "log_failing_backend =
     \<lparr>diffSummary = (\<lambda>base. Inr [DiffResultTextFile ''a.ts'' 10 10 0]),
      log = (\<lambda>base. Inl (ErrorInstance ''fatal: bad revision'' None))\<rparr>"

section \<open>Properties of the collector\<close>

lemma failures_apply_call:
  "failures (apply_call x c) =
     (case x of AddFailure msg f l \<Rightarrow>
        failures c @ [\<lparr>level = Level_fail, message = msg, file' = f, line = l\<rparr>]
      | _ \<Rightarrow> failures c)"
  by (cases x) (simp_all add: addMessage_def addWarning_def addFailure_def addMarkdown_def)

lemma length_failures_apply_calls:
  "length (failures (apply_calls xs c)) = length (failures c) + length (filter is_failure_call xs)"
proof (induction xs arbitrary: c)
  case Nil
  show ?case by simp
next
  case (Cons x xs)
  show ?case
    by (cases x)
      (simp_all add: Cons.IH addMessage_def addWarning_def addFailure_def addMarkdown_def)
qed

text \<open>
  C8. \<^verbatim>\<open>reset()\<close> is idempotent: resetting twice gives the state that resetting once
  gives, and that state has its four lists empty.
\<close>

theorem reset_idempotent:
  "reset (reset c) = reset c \<and>
   messages (reset c) = [] \<and> warnings (reset c) = [] \<and>
   failures (reset c) = [] \<and> markdowns (reset c) = []"
  by (simp add: reset_def)

text \<open>
  C10. Each append operation adds exactly one entry at the end of its own list and leaves
  the other three lists as they were.
\<close>

theorem append_operations_frame:
  "messages (addMessage msg f l c) =
       messages c @ [\<lparr>level = Level_message, message = msg, file' = f, line = l\<rparr>] \<and>
     warnings (addMessage msg f l c) = warnings c \<and>
     failures (addMessage msg f l c) = failures c \<and>
     markdowns (addMessage msg f l c) = markdowns c \<and>
   warnings (addWarning msg f l c) =
       warnings c @ [\<lparr>level = Level_warn, message = msg, file' = f, line = l\<rparr>] \<and>
     messages (addWarning msg f l c) = messages c \<and>
     failures (addWarning msg f l c) = failures c \<and>
     markdowns (addWarning msg f l c) = markdowns c \<and>
   failures (addFailure msg f l c) =
       failures c @ [\<lparr>level = Level_fail, message = msg, file' = f, line = l\<rparr>] \<and>
     messages (addFailure msg f l c) = messages c \<and>
     warnings (addFailure msg f l c) = warnings c \<and>
     markdowns (addFailure msg f l c) = markdowns c \<and>
   markdowns (addMarkdown content c) = markdowns c @ [content] \<and>
     messages (addMarkdown content c) = messages c \<and>
     warnings (addMarkdown content c) = warnings c \<and>
     failures (addMarkdown content c) = failures c"
  by (simp add: addMessage_def addWarning_def addFailure_def addMarkdown_def)


section \<open>Properties of the change model\<close>

lemma created_categorize_files:
  "created_files (categorize_files fs g) =
     created_files g @ [f. DiffResultTextFile f ch ins del \<leftarrow> fs, ins > 0 \<and> del = 0]"
proof (induction fs arbitrary: g)
  case Nil
  show ?case by simp
next
  case (Cons e es)
  show ?case by (cases e) (auto simp add: Cons.IH Let_def)
qed

lemma deleted_categorize_files:
  "deleted_files (categorize_files fs g) =
     deleted_files g @ [f. DiffResultTextFile f ch ins del \<leftarrow> fs, del > 0 \<and> ins = 0]"
proof (induction fs arbitrary: g)
  case Nil
  show ?case by simp
next
  case (Cons e es)
  show ?case by (cases e) (auto simp add: Cons.IH Let_def)
qed

lemma modified_categorize_files:
  "modified_files (categorize_files fs g) =
     modified_files g @ [f. DiffResultTextFile f ch ins del \<leftarrow> fs,
        \<not> (ins > 0 \<and> del = 0) \<and> \<not> (del > 0 \<and> ins = 0) \<and> (ins > 0 \<or> del > 0)]"
proof (induction fs arbitrary: g)
  case Nil
  show ?case by simp
next
  case (Cons e es)
  show ?case by (cases e) (auto simp add: Cons.IH Let_def)
qed

lemma diffs_categorize_files:
  "diffs (categorize_files fs g) =
     diffs g @ [\<lparr>diff_file = f, additions = ins, deletions = del, changes = ch\<rparr>.
                 DiffResultTextFile f ch ins del \<leftarrow> fs]"
proof (induction fs arbitrary: g)
  case Nil
  show ?case by simp
next
  case (Cons e es)
  show ?case by (cases e) (auto simp add: Cons.IH Let_def)
qed

lemma commits_categorize_files: "commits (categorize_files fs g) = commits g"
proof (induction fs arbitrary: g)
  case Nil
  show ?case by simp
next
  case (Cons e es)
  show ?case by (cases e) (auto simp add: Cons.IH Let_def)
qed

lemma buckets_Git_initialize:
  assumes "diffSummary backend base = Inr files"
  shows "created_files (Git_initialize backend base new_Git) =
           [f. DiffResultTextFile f ch ins del \<leftarrow> files, ins > 0 \<and> del = 0] \<and>
         deleted_files (Git_initialize backend base new_Git) =
           [f. DiffResultTextFile f ch ins del \<leftarrow> files, del > 0 \<and> ins = 0] \<and>
         modified_files (Git_initialize backend base new_Git) =
           [f. DiffResultTextFile f ch ins del \<leftarrow> files,
              \<not> (ins > 0 \<and> del = 0) \<and> \<not> (del > 0 \<and> ins = 0) \<and> (ins > 0 \<or> del > 0)]"
  using assms
  by (simp add: Git_initialize_def Let_def created_categorize_files deleted_categorize_files
        modified_categorize_files new_Git_def split: sum.splits)

text \<open>
  C2. When the backend answers, the three buckets hold, in the backend's order, the paths
  of the text entries with insertions only (created), with deletions only (deleted), and
  with any other combination that is not zero on both sides (modified). An entry is
  selected by at most one of the three conditions, an entry with no insertion and no
  deletion by none, and a binary entry by none.
\<close>

theorem classification_rule:
  assumes "diffSummary backend base = Inr files"
  shows "created_files (Git_initialize backend base new_Git) =
           [f. DiffResultTextFile f ch ins del \<leftarrow> files, ins > 0 \<and> del = 0] \<and>
         deleted_files (Git_initialize backend base new_Git) =
           [f. DiffResultTextFile f ch ins del \<leftarrow> files, del > 0 \<and> ins = 0] \<and>
         modified_files (Git_initialize backend base new_Git) =
           [f. DiffResultTextFile f ch ins del \<leftarrow> files,
              \<not> (ins > 0 \<and> del = 0) \<and> \<not> (del > 0 \<and> ins = 0) \<and> (ins > 0 \<or> del > 0)]"
  using assms by (rule buckets_Git_initialize)

theorem classification_rule_witness:
  "diffSummary scenario_backend ''main'' =
     Inr [DiffResultTextFile ''a.ts'' 10 10 0, DiffResultTextFile ''b.ts'' 5 0 5,
          DiffResultTextFile ''c.ts'' 5 3 2] \<and>
   created_files (Git_initialize scenario_backend ''main'' new_Git) = [''a.ts''] \<and>
   deleted_files (Git_initialize scenario_backend ''main'' new_Git) = [''b.ts''] \<and>
   modified_files (Git_initialize scenario_backend ''main'' new_Git) = [''c.ts'']"
proof -
  have h: "diffSummary scenario_backend ''main'' =
     Inr [DiffResultTextFile ''a.ts'' 10 10 0, DiffResultTextFile ''b.ts'' 5 0 5,
          DiffResultTextFile ''c.ts'' 5 3 2]"
    by (simp add: scenario_backend_def)
  show ?thesis using classification_rule [OF h] h by simp
qed

lemma in_diffs_categorize_files:
  assumes "d \<in> set (diffs (categorize_files fs g))" and "diffs g = []"
  shows "DiffResultTextFile (diff_file d) (changes d) (additions d) (deletions d) \<in> set fs"
  using assms by (auto simp add: diffs_categorize_files split: DiffFile.splits)

lemma in_created_iff:
  "p \<in> set [f. DiffResultTextFile f ch ins del \<leftarrow> fs, ins > 0 \<and> del = 0] \<longleftrightarrow>
     (\<exists>ch ins del. DiffResultTextFile p ch ins del \<in> set fs \<and> ins > 0 \<and> del = 0)"
  by (auto split: DiffFile.splits if_splits)

lemma in_deleted_iff:
  "p \<in> set [f. DiffResultTextFile f ch ins del \<leftarrow> fs, del > 0 \<and> ins = 0] \<longleftrightarrow>
     (\<exists>ch ins del. DiffResultTextFile p ch ins del \<in> set fs \<and> del > 0 \<and> ins = 0)"
  by (auto split: DiffFile.splits if_splits)

lemma in_modified_iff:
  "p \<in> set [f. DiffResultTextFile f ch ins del \<leftarrow> fs,
        \<not> (ins > 0 \<and> del = 0) \<and> \<not> (del > 0 \<and> ins = 0) \<and> (ins > 0 \<or> del > 0)] \<longleftrightarrow>
     (\<exists>ch ins del. DiffResultTextFile p ch ins del \<in> set fs \<and> ins > 0 \<and> del > 0)"
  by (auto split: DiffFile.splits if_splits)

lemma unique_entry:
  assumes "distinct (map file_of fs)" and "DiffResultTextFile p ch ins del \<in> set fs"
    and "DiffResultTextFile p ch' ins' del' \<in> set fs"
  shows "ins' = ins \<and> del' = del"
proof -
  have "inj_on file_of (set fs)" using assms(1) by (simp add: distinct_map)
  from inj_onD [OF this _ assms(2) assms(3)]
  have "DiffResultTextFile p ch ins del = DiffResultTextFile p ch' ins' del'"
    by simp
  then show ?thesis by simp
qed

lemma diffs_Git_initialize:
  assumes "diffSummary backend base = Inr files"
  shows "diffs (Git_initialize backend base new_Git) = diffs (categorize_files files new_Git)"
  using assms by (simp add: Git_initialize_def Let_def split: sum.splits)

lemma unique_entry_property:
  assumes "distinct (map file_of fs)" and "DiffResultTextFile p ch ins del \<in> set fs"
  shows "(\<exists>ch' ins' del'. DiffResultTextFile p ch' ins' del' \<in> set fs \<and> P ins' del') \<longleftrightarrow> P ins del"
proof
  assume "\<exists>ch' ins' del'. DiffResultTextFile p ch' ins' del' \<in> set fs \<and> P ins' del'"
  then obtain ch' ins' del' where e: "DiffResultTextFile p ch' ins' del' \<in> set fs" and p: "P ins' del'"
    by blast
  from unique_entry [OF assms(1) assms(2) e] p show "P ins del" by simp
next
  assume "P ins del"
  with assms(2) show "\<exists>ch' ins' del'. DiffResultTextFile p ch' ins' del' \<in> set fs \<and> P ins' del'"
    by blast
qed

text \<open>
  C6, as amended. When the backend reports each path once, a path recorded in \<^verbatim>\<open>diffs\<close>
  with at least one inserted or deleted line is in exactly one of the three buckets, and a
  path recorded with no inserted and no deleted line is in none.
\<close>

theorem diffs_in_one_bucket:
  assumes ok: "diffSummary backend base = Inr files"
    and dist: "distinct (map file_of files)"
    and d: "d \<in> set (diffs (Git_initialize backend base new_Git))"
  shows "bucket_count (Git_initialize backend base new_Git) (diff_file d) =
           (if additions d > 0 \<or> deletions d > 0 then 1 else 0)"
proof -
  let ?g = "Git_initialize backend base new_Git"
  have entry: "DiffResultTextFile (diff_file d) (changes d) (additions d) (deletions d) \<in> set files"
  proof (rule in_diffs_categorize_files)
    show "d \<in> set (diffs (categorize_files files new_Git))"
      using d by (simp only: diffs_Git_initialize [OF ok])
    show "diffs new_Git = []" by (simp add: new_Git_def)
  qed
  note cr = buckets_Git_initialize [OF ok]
  have c: "diff_file d \<in> set (created_files ?g) \<longleftrightarrow> additions d > 0 \<and> deletions d = 0"
    by (simp only: conjunct1 [OF cr] in_created_iff
          unique_entry_property [OF dist entry, of "\<lambda>i d. i > 0 \<and> d = 0"])
  have dl: "diff_file d \<in> set (deleted_files ?g) \<longleftrightarrow> deletions d > 0 \<and> additions d = 0"
    by (simp only: conjunct1 [OF conjunct2 [OF cr]] in_deleted_iff
          unique_entry_property [OF dist entry, of "\<lambda>i d. d > 0 \<and> i = 0"])
  have m: "diff_file d \<in> set (modified_files ?g) \<longleftrightarrow> additions d > 0 \<and> deletions d > 0"
    by (simp only: conjunct2 [OF conjunct2 [OF cr]] in_modified_iff
          unique_entry_property [OF dist entry, of "\<lambda>i d. i > 0 \<and> d > 0"])
  show ?thesis
    unfolding bucket_count_def by (simp only: c dl m) auto
qed

text \<open>
  C6 as stated fails: an entry without line changes is recorded in \<^verbatim>\<open>diffs\<close> and put in
  no bucket.
\<close>

theorem diffs_in_one_bucket_counterexample:
  "''empty.txt'' \<in> diff_file ` set (diffs (Git_initialize zero_change_backend ''main'' new_Git)) \<and>
   bucket_count (Git_initialize zero_change_backend ''main'' new_Git) ''empty.txt'' = 0"
  by (simp add: zero_change_backend_def Git_initialize_def new_Git_def bucket_count_def)

theorem diffs_in_one_bucket_witness:
  "diffSummary scenario_backend ''main'' =
     Inr [DiffResultTextFile ''a.ts'' 10 10 0, DiffResultTextFile ''b.ts'' 5 0 5,
          DiffResultTextFile ''c.ts'' 5 3 2] \<and>
   distinct (map file_of [DiffResultTextFile ''a.ts'' 10 10 0, DiffResultTextFile ''b.ts'' 5 0 5,
          DiffResultTextFile ''c.ts'' 5 3 2]) \<and>
   \<lparr>diff_file = ''c.ts'', additions = 3, deletions = 2, changes = 5\<rparr>
     \<in> set (diffs (Git_initialize scenario_backend ''main'' new_Git)) \<and>
   bucket_count (Git_initialize scenario_backend ''main'' new_Git) ''c.ts'' = 1"
proof -
  have h: "diffSummary scenario_backend ''main'' =
     Inr [DiffResultTextFile ''a.ts'' 10 10 0, DiffResultTextFile ''b.ts'' 5 0 5,
          DiffResultTextFile ''c.ts'' 5 3 2]"
    by (simp add: scenario_backend_def)
  have dist: "distinct (map file_of [DiffResultTextFile ''a.ts'' 10 10 0,
          DiffResultTextFile ''b.ts'' 5 0 5, DiffResultTextFile ''c.ts'' 5 3 2])"
    by simp
  have d: "\<lparr>diff_file = ''c.ts'', additions = 3, deletions = 2, changes = 5\<rparr>
     \<in> set (diffs (Git_initialize scenario_backend ''main'' new_Git))"
    by (simp add: scenario_backend_def Git_initialize_def new_Git_def)
  show ?thesis using diffs_in_one_bucket [OF h dist d] h dist d by simp
qed

section \<open>Properties of glob matching\<close>

lemma set_set_add: "set (set_add x s) = insert x (set s)"
  by (auto simp add: set_add_def)

lemma set_set_delete: "set (set_delete x s) = set s - {x}"
  by (auto simp add: set_delete_def)

lemma scan_list_negated:
  assumes "negated m"
  shows "set (omit (scan_list m xs st)) = set (omit st) \<union> {x \<in> set xs. \<not> isMatch m x} \<and>
         keep (scan_list m xs st) = keep st \<and>
         set (items (scan_list m xs st)) = set (items st) \<union> set xs \<and>
         negatives (scan_list m xs st) = negatives st"
  using assms
proof (induction xs arbitrary: st)
  case Nil
  show ?case by simp
next
  case (Cons x xs)
  show ?case
    using Cons.prems by (auto simp add: Cons.IH Let_def set_set_add)
qed

lemma scan_list_positive:
  assumes "\<not> negated m"
  shows "set (keep (scan_list m xs st)) = set (keep st) \<union> {x \<in> set xs. isMatch m x} \<and>
         set (omit (scan_list m xs st)) = set (omit st) - {x \<in> set xs. isMatch m x} \<and>
         set (items (scan_list m xs st)) = set (items st) \<union> set xs \<and>
         negatives (scan_list m xs st) = negatives st"
  using assms
proof (induction xs arbitrary: st)
  case Nil
  show ?case by simp
next
  case (Cons x xs)
  show ?case
    using Cons.prems by (auto simp add: Cons.IH Let_def set_set_add set_set_delete)
qed

lemma micromatch_single_error:
  assumes "pm p = Inl err"
  shows "micromatch pm xs [p] = Inl err"
  using assms by (simp add: micromatch_def)

lemma micromatch_single:
  assumes "pm p = Inr m"
  shows "\<exists>r. micromatch pm xs [p] = Inr r \<and> set r = {x \<in> set xs. isMatch m x}"
proof (cases "negated m")
  case True
  note s = scan_list_negated [OF True, of xs "\<lparr>omit = [], keep = [], items = [], negatives = 1\<rparr>"]
  show ?thesis
    using assms True s by (auto simp add: micromatch_def Let_def)
next
  case False
  note s = scan_list_positive [OF False, of xs "\<lparr>omit = [], keep = [], items = [], negatives = 0\<rparr>"]
  show ?thesis
    using assms False s by (auto simp add: micromatch_def Let_def)
qed

lemma micromatch_single_empty:
  assumes "pm p = Inr m" and "micromatch pm xs [p] = Inr r"
  shows "r = [] \<longleftrightarrow> (\<forall>x \<in> set xs. \<not> isMatch m x)"
proof -
  from micromatch_single [of pm p m xs] assms
  have "set r = {x \<in> set xs. isMatch m x}" by auto
  then show ?thesis by (metis (mono_tags, lifting) empty_Collect_eq set_empty)
qed

lemma matches_of_fileMatch:
  assumes "fileMatch pm g q = Inr fm"
  shows "matches fm p =
     (case micromatch pm (modified_files g @ created_files g @ deleted_files g) [p] of
        Inl err \<Rightarrow> Inl err
      | Inr r \<Rightarrow> Inr (length r > 0))"
  using assms by (auto simp add: fileMatch_def Let_def split: sum.splits)

lemma hasChanges_single:
  "hasChanges pm g (Single p) =
     (case pm p of
        Inl err \<Rightarrow> Inl err
      | Inr m \<Rightarrow> Inr (\<exists>x \<in> set (modified_files g) \<union> set (created_files g) \<union> set (deleted_files g).
                        isMatch m x))"
proof (cases "pm p")
  case (Inl err)
  then show ?thesis
    by (simp add: hasChanges_def fileMatch_def micromatch_single_error)
next
  case (Inr m)
  obtain r1 where r1: "micromatch pm (modified_files g) [p] = Inr r1"
    using micromatch_single [of pm p m] Inr by blast
  obtain r2 where r2: "micromatch pm (created_files g) [p] = Inr r2"
    using micromatch_single [of pm p m] Inr by blast
  obtain r3 where r3: "micromatch pm (deleted_files g) [p] = Inr r3"
    using micromatch_single [of pm p m] Inr by blast
  note e1 = micromatch_single_empty [of pm p m, OF Inr r1]
  note e2 = micromatch_single_empty [of pm p m, OF Inr r2]
  note e3 = micromatch_single_empty [of pm p m, OF Inr r3]
  show ?thesis
    using e1 e2 e3 by (auto simp add: hasChanges_def fileMatch_def r1 r2 r3 Inr)
qed

lemma matches_single:
  assumes "fileMatch pm g q = Inr fm"
  shows "matches fm p =
     (case pm p of
        Inl err \<Rightarrow> Inl err
      | Inr m \<Rightarrow> Inr (\<exists>x \<in> set (modified_files g) \<union> set (created_files g) \<union> set (deleted_files g).
                        isMatch m x))"
proof (cases "pm p")
  case (Inl err)
  then show ?thesis
    by (simp add: matches_of_fileMatch [OF assms] micromatch_single_error)
next
  case (Inr m)
  obtain r where r: "micromatch pm (modified_files g @ created_files g @ deleted_files g) [p] = Inr r"
    using micromatch_single [of pm p m] Inr by blast
  note e = micromatch_single_empty [of pm p m, OF Inr r]
  show ?thesis
    using e by (auto simp add: matches_of_fileMatch [OF assms] r Inr)
qed

text \<open>
  C5. For one glob \<open>p\<close>, \<^verbatim>\<open>hasChanges(p)\<close> and the \<^verbatim>\<open>matches(p)\<close> of any match object of the
  same change set give the same outcome: the same boolean, or, when the glob does not
  compile, the same thrown error. \<^verbatim>\<open>hasChanges(p)\<close> is true exactly when \<^verbatim>\<open>fileMatch(p)\<close>
  returns a non-empty edited, created or deleted subset.
\<close>

theorem hasChanges_agrees_with_matches:
  assumes "fileMatch pm g q = Inr fm"
  shows "hasChanges pm g (Single p) = matches fm p \<and>
         (hasChanges pm g (Single p) = Inr True \<longleftrightarrow>
            (\<exists>fm'. fileMatch pm g (Single p) = Inr fm' \<and>
                   (edited fm' \<noteq> [] \<or> created fm' \<noteq> [] \<or> deleted fm' \<noteq> [])))"
proof
  show "hasChanges pm g (Single p) = matches fm p"
    by (simp only: hasChanges_single matches_single [OF assms])
  show "hasChanges pm g (Single p) = Inr True \<longleftrightarrow>
            (\<exists>fm'. fileMatch pm g (Single p) = Inr fm' \<and>
                   (edited fm' \<noteq> [] \<or> created fm' \<noteq> [] \<or> deleted fm' \<noteq> []))"
    by (auto simp add: hasChanges_def split: sum.splits)
qed

lemma scenario_git_buckets:
  "modified_files scenario_git = [''c.ts''] \<and> created_files scenario_git = [''a.ts''] \<and>
   deleted_files scenario_git = [''b.ts'']"
  by (simp add: scenario_git_def scenario_backend_def Git_initialize_def new_Git_def)

lemma literal_picomatch_plain:
  "literal_picomatch ''a.ts'' = Inr \<lparr>negated = False, isMatch = (\<lambda>input. input = ''a.ts'')\<rparr> \<and>
   literal_picomatch ''c.ts'' = Inr \<lparr>negated = False, isMatch = (\<lambda>input. input = ''c.ts'')\<rparr>"
  by (simp add: literal_picomatch_def)

theorem hasChanges_agrees_with_matches_witness:
  "fileMatch literal_picomatch scenario_git (Single ''c.ts'') =
     Inr (projr (fileMatch literal_picomatch scenario_git (Single ''c.ts''))) \<and>
   hasChanges literal_picomatch scenario_git (Single ''a.ts'') = Inr True \<and>
   matches (projr (fileMatch literal_picomatch scenario_git (Single ''c.ts''))) ''a.ts'' = Inr True"
proof -
  have h: "fileMatch literal_picomatch scenario_git (Single ''c.ts'') =
     Inr (projr (fileMatch literal_picomatch scenario_git (Single ''c.ts'')))"
    by (simp add: fileMatch_def micromatch_def scenario_git_buckets literal_picomatch_plain
          set_add_def set_delete_def Let_def)
  have c: "hasChanges literal_picomatch scenario_git (Single ''a.ts'') = Inr True"
    by (simp add: hasChanges_def fileMatch_def micromatch_def scenario_git_buckets
          literal_picomatch_plain set_add_def set_delete_def Let_def)
  show ?thesis
    using hasChanges_agrees_with_matches [OF h, of "''a.ts''"] h c by simp
qed







section \<open>Properties of the loader\<close>

lemma probe_extensions_find:
  "probe_extensions w root exts =
     map_option
       (\<lambda>ext. \<lparr>path = ''reviewfile'' @ ext, absolutePath = path_join w root (''reviewfile'' @ ext),
               exists = True, isTypeScript = (ext = ''.ts'' \<or> ext = ''.mts'')\<rparr>)
       (find (\<lambda>ext. existsSync w (path_join w root (''reviewfile'' @ ext))) exts)"
  by (induction exts) (simp_all add: Let_def)

text \<open>
  C9. Without an explicit path (undefined, or the empty string the evaluator passes by
  default), \<^verbatim>\<open>findReviewFile\<close> returns the first of \<^verbatim>\<open>reviewfile.ts\<close>, \<^verbatim>\<open>reviewfile.js\<close>,
  \<^verbatim>\<open>reviewfile.mts\<close>, \<^verbatim>\<open>reviewfile.mjs\<close> that exists in the project root, marked as existing;
  when none exists it returns \<^verbatim>\<open>reviewfile.ts\<close> in the project root marked as not existing.
\<close>

theorem findReviewFile_default_search:
  assumes "\<not> truthy providedPath"
  shows "findReviewFile w providedPath root =
     (case find (\<lambda>ext. existsSync w (path_join w root (''reviewfile'' @ ext)))
             [''.ts'', ''.js'', ''.mts'', ''.mjs''] of
        Some ext \<Rightarrow>
          \<lparr>path = ''reviewfile'' @ ext, absolutePath = path_join w root (''reviewfile'' @ ext),
           exists = True, isTypeScript = (ext = ''.ts'' \<or> ext = ''.mts'')\<rparr>
      | None \<Rightarrow>
          \<lparr>path = ''reviewfile.ts'', absolutePath = path_join w root ''reviewfile.ts'',
           exists = False, isTypeScript = True\<rparr>)"
proof -
  have "findReviewFile w providedPath root =
     (case probe_extensions w root [''.ts'', ''.js'', ''.mts'', ''.mjs''] of
        Some info \<Rightarrow> info
      | None \<Rightarrow>
          \<lparr>path = ''reviewfile.ts'', absolutePath = path_join w root ''reviewfile.ts'',
           exists = False, isTypeScript = True\<rparr>)"
    using assms by (simp add: findReviewFile_def)
  also have "\<dots> =
     (case find (\<lambda>ext. existsSync w (path_join w root (''reviewfile'' @ ext)))
             [''.ts'', ''.js'', ''.mts'', ''.mjs''] of
        Some ext \<Rightarrow>
          \<lparr>path = ''reviewfile'' @ ext, absolutePath = path_join w root (''reviewfile'' @ ext),
           exists = True, isTypeScript = (ext = ''.ts'' \<or> ext = ''.mts'')\<rparr>
      | None \<Rightarrow>
          \<lparr>path = ''reviewfile.ts'', absolutePath = path_join w root ''reviewfile.ts'',
           exists = False, isTypeScript = True\<rparr>)"
    unfolding probe_extensions_find by (simp split: option.splits)
  finally show ?thesis .
qed

theorem findReviewFile_default_search_witness:
  "\<not> truthy None \<and>
   findReviewFile (example_world (\<lambda>p. p = ''/repo/reviewfile.js'') (\<lambda>v. None) api_down silent_rule)
       None ''/repo'' =
     \<lparr>path = ''reviewfile.js'', absolutePath = ''/repo/reviewfile.js'', exists = True,
      isTypeScript = False\<rparr> \<and>
   \<not> truthy (Some '''') \<and>
   findReviewFile (example_world (\<lambda>p. False) (\<lambda>v. None) api_down silent_rule)
       (Some '''') ''/repo'' =
     \<lparr>path = ''reviewfile.ts'', absolutePath = ''/repo/reviewfile.ts'', exists = False,
      isTypeScript = True\<rparr>"
proof -
  have h1: "\<not> truthy None" by simp
  have h2: "\<not> truthy (Some '''')" by simp
  show ?thesis
    using findReviewFile_default_search [OF h1,
            of "example_world (\<lambda>p. p = ''/repo/reviewfile.js'') (\<lambda>v. None) api_down silent_rule"
               "''/repo''"]
          findReviewFile_default_search [OF h2,
            of "example_world (\<lambda>p. False) (\<lambda>v. None) api_down silent_rule" "''/repo''"]
    by (simp add: example_world_def)
qed

section \<open>Properties of the evaluator\<close>

lemma evaluate_unfold:
  assumes "validateReviewFile w (findReviewFile w (Some (options_reviewFilePath ev))
             (options_projectRoot ev)) = None"
    and "loadReviewFile w (absolutePath (findReviewFile w (Some (options_reviewFilePath ev))
             (options_projectRoot ev))) = Inr f"
  shows "evaluate w ev \<sigma> =
     (let c = options_resultsCollector ev;
          rf = findReviewFile w (Some (options_reviewFilePath ev)) (options_projectRoot ev);
          rv = createReviewContext w (options_baseBranch ev) (options_enableGitHub ev)
                 (options_projectRoot ev)
      in case executeReviewFile ev f rv (\<sigma>(c := reset (\<sigma> c))) of
           (Some err, \<sigma>1) \<Rightarrow> (Inl err, \<sigma>1)
         | (None, \<sigma>1) \<Rightarrow>
             (Inr \<lparr>review = rv, results = c, reviewFile = rf,
                   passed = (\<not> hasFailures (\<sigma>1 c)), exitCode = getExitCode (\<sigma>1 c)\<rparr>, \<sigma>1))"
  using assms by (simp add: evaluate_def Let_def)

lemma executeReviewFile_throw:
  assumes "f rv = (calls, Some err)" and "printable err"
  shows "executeReviewFile ev f rv \<sigma> =
     (None,
      (run_dsl_calls calls \<sigma>)(options_resultsCollector ev :=
        addFailure
          (case err of
             ErrorInstance msg st \<Rightarrow>
               ''Review execution failed: '' @ msg @ [CHR 0x0A, CHR 0x0A] @ ''Stack trace:'' @
               [CHR 0x0A] @ (case st of Some trace \<Rightarrow> trace | None \<Rightarrow> ''undefined'')
           | NonError v \<Rightarrow> ''Review execution failed with unknown error: '' @ v
           | other \<Rightarrow> [])
          None None (run_dsl_calls calls \<sigma> (options_resultsCollector ev))))"
  using assms by (cases err) (simp_all add: executeReviewFile_def Let_def)

lemma executeReviewFile_unprintable:
  assumes "f rv = (calls, Some err)" and "\<not> printable err"
  shows "\<exists>t. executeReviewFile ev f rv \<sigma> = (Some t, run_dsl_calls calls \<sigma>)"
  using assms by (cases err) (simp_all add: executeReviewFile_def Let_def)

text \<open>
  What holds when the thrown value can be printed: \<^verbatim>\<open>evaluate\<close> returns a failed result, and
  the evaluator's collector holds the failures it held when the rule threw followed by
  exactly one more, whose text carries the message and stack, or the string form.
\<close>

lemma rule_error_recorded:
  assumes v: "validateReviewFile w (findReviewFile w (Some (options_reviewFilePath ev))
             (options_projectRoot ev)) = None"
    and l: "loadReviewFile w (absolutePath (findReviewFile w (Some (options_reviewFilePath ev))
             (options_projectRoot ev))) = Inr f"
    and t: "f (createReviewContext w (options_baseBranch ev) (options_enableGitHub ev)
             (options_projectRoot ev)) = (calls, Some err)"
    and p: "printable err"
  shows "(\<exists>r. fst (evaluate w ev \<sigma>) = Inr r \<and> results r = options_resultsCollector ev \<and>
             passed r = False \<and> exitCode r = 1) \<and>
         failures (snd (evaluate w ev \<sigma>) (options_resultsCollector ev)) =
           failures (run_dsl_calls calls
                       (\<sigma>(options_resultsCollector ev := reset (\<sigma> (options_resultsCollector ev))))
                       (options_resultsCollector ev)) @
           [\<lparr>level = Level_fail,
             message =
               (case err of
                  ErrorInstance msg st \<Rightarrow>
                    ''Review execution failed: '' @ msg @ [CHR 0x0A, CHR 0x0A] @ ''Stack trace:'' @
                    [CHR 0x0A] @ (case st of Some trace \<Rightarrow> trace | None \<Rightarrow> ''undefined'')
                | NonError v \<Rightarrow> ''Review execution failed with unknown error: '' @ v
                | other \<Rightarrow> []),
             file' = None, line = None\<rparr>]"
proof -
  let ?c = "options_resultsCollector ev"
  let ?rv = "createReviewContext w (options_baseBranch ev) (options_enableGitHub ev)
             (options_projectRoot ev)"
  let ?\<sigma>0 = "\<sigma>(?c := reset (\<sigma> ?c))"
  note ev = evaluate_unfold [OF v l, of \<sigma>]
  note ex = executeReviewFile_throw [of f ?rv calls err ev ?\<sigma>0, OF t p]
  show ?thesis
    by (simp add: ev ex Let_def addFailure_def hasFailures_def getExitCode_def)
qed

text \<open>
  What happens when it cannot: the value thrown by the conversion leaves \<^verbatim>\<open>evaluate\<close>, and the
  store is the one the rule's own calls left.
\<close>

lemma rule_error_escapes:
  assumes v: "validateReviewFile w (findReviewFile w (Some (options_reviewFilePath ev))
             (options_projectRoot ev)) = None"
    and l: "loadReviewFile w (absolutePath (findReviewFile w (Some (options_reviewFilePath ev))
             (options_projectRoot ev))) = Inr f"
    and t: "f (createReviewContext w (options_baseBranch ev) (options_enableGitHub ev)
             (options_projectRoot ev)) = (calls, Some err)"
    and p: "\<not> printable err"
  shows "\<exists>e. evaluate w ev \<sigma> =
           (Inl e, run_dsl_calls calls
                     (\<sigma>(options_resultsCollector ev := reset (\<sigma> (options_resultsCollector ev)))))"
proof -
  let ?c = "options_resultsCollector ev"
  let ?rv = "createReviewContext w (options_baseBranch ev) (options_enableGitHub ev)
             (options_projectRoot ev)"
  let ?\<sigma>0 = "\<sigma>(?c := reset (\<sigma> ?c))"
  note ev = evaluate_unfold [OF v l, of \<sigma>]
  from executeReviewFile_unprintable [of f ?rv calls err ev ?\<sigma>0, OF t p]
  obtain e where "executeReviewFile ev f ?rv ?\<sigma>0 = (Some e, run_dsl_calls calls ?\<sigma>0)"
    by blast
  then show ?thesis
    by (simp add: ev Let_def)
qed

lemma scenario2_evaluator:
  "new_RuleEvaluator scenario2_world default_options =
     \<lparr>options_reviewFilePath = [], options_baseBranch = ''main'', options_enableGitHub = True,
      options_projectRoot = ''/repo'', options_resultsCollector = globalResultsCollector\<rparr> \<and>
   new_RuleEvaluator scenario2_world custom_collector_options =
     \<lparr>options_reviewFilePath = [], options_baseBranch = ''main'', options_enableGitHub = True,
      options_projectRoot = ''/repo'', options_resultsCollector = customCollector\<rparr>"
  by (simp add: new_RuleEvaluator_def default_options_def custom_collector_options_def
        scenario2_world_def example_world_def)

lemma scenario2_findReviewFile:
  "findReviewFile scenario2_world (Some []) ''/repo'' =
     \<lparr>path = ''reviewfile.ts'', absolutePath = ''/repo/reviewfile.ts'', exists = True,
      isTypeScript = True\<rparr>"
  by (simp add: findReviewFile_def scenario2_world_def example_world_def Let_def)

lemma scenario2_validate:
  "validateReviewFile scenario2_world
     \<lparr>path = ''reviewfile.ts'', absolutePath = ''/repo/reviewfile.ts'', exists = True,
      isTypeScript = True\<rparr> = None"
  by (simp add: validateReviewFile_def scenario2_world_def example_world_def)

lemma scenario2_load:
  "loadReviewFile scenario2_world ''/repo/reviewfile.ts'' = Inr failing_rule"
  by (simp add: loadReviewFile_def scenario2_world_def example_world_def)

lemma unprintable_evaluator:
  "new_RuleEvaluator unprintable_world default_options =
     \<lparr>options_reviewFilePath = [], options_baseBranch = ''main'', options_enableGitHub = True,
      options_projectRoot = ''/repo'', options_resultsCollector = globalResultsCollector\<rparr>"
  by (simp add: new_RuleEvaluator_def default_options_def unprintable_world_def example_world_def)

lemma unprintable_findReviewFile:
  "findReviewFile unprintable_world (Some []) ''/repo'' =
     \<lparr>path = ''reviewfile.ts'', absolutePath = ''/repo/reviewfile.ts'', exists = True,
      isTypeScript = True\<rparr>"
  by (simp add: findReviewFile_def unprintable_world_def example_world_def Let_def)

lemma unprintable_validate:
  "validateReviewFile unprintable_world
     \<lparr>path = ''reviewfile.ts'', absolutePath = ''/repo/reviewfile.ts'', exists = True,
      isTypeScript = True\<rparr> = None"
  by (simp add: validateReviewFile_def unprintable_world_def example_world_def)

lemma unprintable_load:
  "loadReviewFile unprintable_world ''/repo/reviewfile.ts'' = Inr unprintable_rule"
  by (simp add: loadReviewFile_def unprintable_world_def example_world_def)

text \<open>Scenario 2 with the default options: the global collector holds the two failures.\<close>

lemma scenario2_default_run:
  "map_option (map message)
     (result_failures (runReview scenario2_world default_options fresh_store)) =
   Some [''x'', ''Review execution failed: boom'' @ [CHR 0x0A, CHR 0x0A] @ ''Stack trace:'' @
               [CHR 0x0A] @ ''Error: boom'']"
  by (simp add: runReview_def evaluate_def scenario2_evaluator scenario2_findReviewFile
        scenario2_validate scenario2_load result_failures_def executeReviewFile_def
        failing_rule_def dsl_fail_def addFailure_def reset_def fresh_store_def Let_def)

text \<open>
  C1 at its failing inputs. With a custom collector in the options, the result of the
  rule that calls \<^verbatim>\<open>fail("x")\<close> and throws an \<^verbatim>\<open>Error\<close> holds one failure, the wrapped
  error, and the failure \<^verbatim>\<open>x\<close> is in the global collector. With the default options, a rule
  that calls \<^verbatim>\<open>fail("x")\<close> and throws \<^verbatim>\<open>Object.create(null)\<close> makes \<^verbatim>\<open>evaluate\<close> itself throw
  the TypeError of the conversion, and the collector holds the failure \<^verbatim>\<open>x\<close> alone.
\<close>

theorem rule_error_containment_at_failure:
  "map_option (map message)
     (result_failures (runReview scenario2_world custom_collector_options fresh_store)) =
   Some [''Review execution failed: boom'' @ [CHR 0x0A, CHR 0x0A] @ ''Stack trace:'' @ [CHR 0x0A] @
         ''Error: boom''] \<and>
   map message
     (failures (snd (runReview scenario2_world custom_collector_options fresh_store)
                  globalResultsCollector)) = [''x''] \<and>
   fst (runReview unprintable_world default_options fresh_store) =
     Inl (ErrorInstance ''Cannot convert object to primitive value''
            (Some ''TypeError: Cannot convert object to primitive value'')) \<and>
   map message
     (failures (snd (runReview unprintable_world default_options fresh_store)
                  globalResultsCollector)) = [''x'']"
proof (intro conjI)
  show "map_option (map message)
     (result_failures (runReview scenario2_world custom_collector_options fresh_store)) =
   Some [''Review execution failed: boom'' @ [CHR 0x0A, CHR 0x0A] @ ''Stack trace:'' @ [CHR 0x0A] @
         ''Error: boom'']"
    by (simp add: runReview_def evaluate_def scenario2_evaluator scenario2_findReviewFile
          scenario2_validate scenario2_load result_failures_def executeReviewFile_def
          failing_rule_def dsl_fail_def addFailure_def reset_def fresh_store_def Let_def)
  show "map message
     (failures (snd (runReview scenario2_world custom_collector_options fresh_store)
                  globalResultsCollector)) = [''x'']"
    by (simp add: runReview_def evaluate_def scenario2_evaluator scenario2_findReviewFile
          scenario2_validate scenario2_load executeReviewFile_def
          failing_rule_def dsl_fail_def addFailure_def reset_def fresh_store_def Let_def)
  show "fst (runReview unprintable_world default_options fresh_store) =
     Inl (ErrorInstance ''Cannot convert object to primitive value''
            (Some ''TypeError: Cannot convert object to primitive value''))"
    by (simp add: runReview_def evaluate_def unprintable_evaluator unprintable_findReviewFile
          unprintable_validate unprintable_load executeReviewFile_def
          unprintable_rule_def Let_def)
  show "map message
     (failures (snd (runReview unprintable_world default_options fresh_store)
                  globalResultsCollector)) = [''x'']"
    by (simp add: runReview_def evaluate_def unprintable_evaluator unprintable_findReviewFile
          unprintable_validate unprintable_load executeReviewFile_def
          unprintable_rule_def dsl_fail_def addFailure_def reset_def fresh_store_def Let_def)
qed

theorem rule_error_containment_at_failure_witness:
  "map_option length
     (result_failures (runReview scenario2_world custom_collector_options fresh_store)) = Some 1 \<and>
   isl (fst (runReview unprintable_world default_options fresh_store)) \<and>
   length (failures (snd (runReview unprintable_world default_options fresh_store)
                       globalResultsCollector)) = 1"
proof -
  note th = rule_error_containment_at_failure
  have a: "map_option length
     (result_failures (runReview scenario2_world custom_collector_options fresh_store)) = Some 1"
    using arg_cong [OF conjunct1 [OF th], of "map_option length"]
    by (simp add: option.map_comp comp_def)
  have b: "isl (fst (runReview unprintable_world default_options fresh_store))"
    by (simp add: conjunct1 [OF conjunct2 [OF conjunct2 [OF th]]])
  have c: "length (failures (snd (runReview unprintable_world default_options fresh_store)
                       globalResultsCollector)) = 1"
    using arg_cong [OF conjunct2 [OF conjunct2 [OF conjunct2 [OF th]]], of length]
    by simp
  show ?thesis using a b c by blast
qed

lemma Git_initialize_diffSummary_error:
  assumes "diffSummary backend base = Inl err"
  shows "Git_initialize backend base new_Git = new_Git"
  using assms by (simp add: Git_initialize_def)

lemma createReviewContext_git:
  "git (createReviewContext w b e r) = Git_initialize (simpleGit w r) b new_Git"
  by (simp add: createReviewContext_def Let_def)

lemma createReviewContext_github_disabled:
  assumes "\<not> e \<or> \<not> truthy (process_env w ''GITHUB_ACTIONS'')"
  shows "github (createReviewContext w b e r) = None"
  using assms by (auto simp add: createReviewContext_def Let_def)

text \<open>
  C4 at its failing inputs. In a GitHub Actions run whose pull-request request is
  rejected, \<^verbatim>\<open>initialize\<close> throws and the composed context still has a \<^verbatim>\<open>github\<close> object,
  without \<^verbatim>\<open>pr\<close>, on which \<^verbatim>\<open>titleMatches\<close> throws. When the diff summary answers and the
  log is rejected, the file buckets and \<^verbatim>\<open>diffs\<close> stay filled and only \<^verbatim>\<open>commits\<close> is empty.
\<close>

theorem degraded_context_at_failure:
  "snd (GitHub_initialize github_env api_down new_GitHub) = Some (ErrorInstance ''Not Found'' None) \<and>
   github (createReviewContext
             (example_world (\<lambda>p. p = ''/repo/reviewfile.ts'') github_env api_down silent_rule)
             ''main'' True ''/repo'') =
     Some \<lparr>pr = None, reviews = [], comments = []\<rparr> \<and>
   titleMatches \<lparr>pr = None, reviews = [], comments = []\<rparr> (Substring ''feat'') =
     Inl (new_Error ''Cannot read properties of undefined'') \<and>
   created_files (Git_initialize log_failing_backend ''main'' new_Git) = [''a.ts''] \<and>
   diffs (Git_initialize log_failing_backend ''main'' new_Git) =
     [\<lparr>diff_file = ''a.ts'', additions = 10, deletions = 0, changes = 10\<rparr>] \<and>
   commits (Git_initialize log_failing_backend ''main'' new_Git) = []"
  by (simp add: GitHub_initialize_def createReviewContext_def example_world_def github_env_def
        api_down_def new_GitHub_def fetchPR_def titleMatches_def Git_initialize_def
        log_failing_backend_def new_Git_def Let_def)

theorem degraded_context_at_failure_witness:
  "github (createReviewContext
             (example_world (\<lambda>p. p = ''/repo/reviewfile.ts'') github_env api_down silent_rule)
             ''main'' True ''/repo'') \<noteq> None \<and>
   created_files (Git_initialize log_failing_backend ''main'' new_Git) \<noteq> []"
  using degraded_context_at_failure by simp

lemma apply_calls_no_failure:
  assumes "\<forall>x \<in> set calls. \<not> is_failure_call x"
  shows "failures (apply_calls calls c) = failures c"
  using assms
proof (induction calls arbitrary: c)
  case Nil
  show ?case by simp
next
  case (Cons x xs)
  then show ?case
    by (cases x) (simp_all add: addMessage_def addWarning_def addMarkdown_def)
qed

lemma filter_failure_calls_empty:
  "filter is_failure_call calls = [] \<longleftrightarrow> \<not> (\<exists>x \<in> set calls. is_failure_call x)"
  by (simp add: filter_empty_conv)

lemma hasFailures_apply_calls:
  "hasFailures (apply_calls calls c) \<longleftrightarrow> hasFailures c \<or> (\<exists>x \<in> set calls. is_failure_call x)"
  using filter_failure_calls_empty [of calls]
  by (auto simp add: hasFailures_def length_failures_apply_calls)

lemma evaluate_verdict:
  "(case evaluate w ev \<sigma> of
      (Inr r, \<sigma>') \<Rightarrow>
        passed r = (failures (\<sigma>' (results r)) = []) \<and> exitCode r = (if passed r then 0 else 1)
    | (Inl err, \<sigma>') \<Rightarrow> True)"
proof (cases "validateReviewFile w (findReviewFile w (Some (options_reviewFilePath ev))
             (options_projectRoot ev))")
  case (Some err)
  then show ?thesis by (simp add: evaluate_def Let_def)
next
  case None
  show ?thesis
  proof (cases "loadReviewFile w (absolutePath (findReviewFile w (Some (options_reviewFilePath ev))
             (options_projectRoot ev)))")
    case (Inl err)
    with None show ?thesis by (simp add: evaluate_def Let_def)
  next
    case (Inr f)
    show ?thesis
      by (simp add: evaluate_unfold [OF None Inr] Let_def hasFailures_def getExitCode_def
            split: prod.splits option.splits)
  qed
qed

text \<open>
  C3. A collector has failures exactly when its failure list is not empty, and its exit
  code is 1 then and 0 otherwise. After a reset, a sequence of append calls leaves
  failures exactly when it contains an \<^verbatim>\<open>addFailure\<close>; from any state a sequence containing
  an \<^verbatim>\<open>addFailure\<close> gives \<^verbatim>\<open>hasFailures()\<close> and exit code 1, and a sequence without one leaves
  the exit code as it was. The result of \<^verbatim>\<open>evaluate\<close> has \<^verbatim>\<open>passed\<close> exactly when its
  collector holds no failure, and \<^verbatim>\<open>exitCode\<close> 0 when passed and 1 otherwise.
\<close>

theorem exit_code_semantics:
  "(\<not> hasFailures c \<longleftrightarrow> failures c = []) \<and>
   getExitCode c = (if hasFailures c then 1 else 0) \<and>
   (hasFailures (apply_calls calls (reset c)) \<longleftrightarrow> (\<exists>x \<in> set calls. is_failure_call x)) \<and>
   ((\<exists>x \<in> set calls. is_failure_call x) \<longrightarrow>
      hasFailures (apply_calls calls c) \<and> getExitCode (apply_calls calls c) = 1) \<and>
   ((\<forall>x \<in> set calls. \<not> is_failure_call x) \<longrightarrow>
      getExitCode (apply_calls calls c) = getExitCode c) \<and>
   (case evaluate w ev \<sigma> of
      (Inr r, \<sigma>') \<Rightarrow>
        passed r = (failures (\<sigma>' (results r)) = []) \<and> exitCode r = (if passed r then 0 else 1)
    | (Inl err, \<sigma>') \<Rightarrow> True)"
proof (intro conjI)
  show "\<not> hasFailures c \<longleftrightarrow> failures c = []"
    by (simp add: hasFailures_def)
  show "getExitCode c = (if hasFailures c then 1 else 0)"
    by (simp add: getExitCode_def)
  show "hasFailures (apply_calls calls (reset c)) \<longleftrightarrow> (\<exists>x \<in> set calls. is_failure_call x)"
    by (simp add: hasFailures_apply_calls) (simp add: hasFailures_def reset_def)
  show "(\<exists>x \<in> set calls. is_failure_call x) \<longrightarrow>
      hasFailures (apply_calls calls c) \<and> getExitCode (apply_calls calls c) = 1"
    by (simp add: getExitCode_def hasFailures_apply_calls)
  show "(\<forall>x \<in> set calls. \<not> is_failure_call x) \<longrightarrow>
      getExitCode (apply_calls calls c) = getExitCode c"
    by (simp add: getExitCode_def hasFailures_def apply_calls_no_failure)
  show "(case evaluate w ev \<sigma> of
      (Inr r, \<sigma>') \<Rightarrow>
        passed r = (failures (\<sigma>' (results r)) = []) \<and> exitCode r = (if passed r then 0 else 1)
    | (Inl err, \<sigma>') \<Rightarrow> True)"
    by (rule evaluate_verdict)
qed

theorem exit_code_semantics_witness:
  "is_failure_call (AddFailure ''Critical error'' None None) \<and>
   hasFailures (apply_calls [AddMessage ''Info'' None None, AddFailure ''Critical error'' None None]
                  (fresh_store globalResultsCollector)) \<and>
   getExitCode (apply_calls [AddMessage ''Info'' None None, AddFailure ''Critical error'' None None]
                  (fresh_store globalResultsCollector)) = 1 \<and>
   \<not> is_failure_call (AddMessage ''All good'' None None) \<and>
   \<not> is_failure_call (AddWarning ''Just a warning'' None None) \<and>
   getExitCode (apply_calls [AddMessage ''All good'' None None, AddWarning ''Just a warning'' None None]
                  (fresh_store globalResultsCollector)) = 0 \<and>
   map_sum id exitCode (fst (runReview scenario2_world default_options fresh_store)) = Inr 1"
proof -
  have h1: "\<exists>x \<in> set [AddMessage ''Info'' None None, AddFailure ''Critical error'' None None].
      is_failure_call x"
    by simp
  have h2: "\<forall>x \<in> set [AddMessage ''All good'' None None, AddWarning ''Just a warning'' None None].
      \<not> is_failure_call x"
    by simp
  have z: "getExitCode (fresh_store globalResultsCollector) = 0"
    by (simp add: getExitCode_def hasFailures_def fresh_store_def)
  note t1 = exit_code_semantics [of "fresh_store globalResultsCollector"
      "[AddMessage ''Info'' None None, AddFailure ''Critical error'' None None]"
      scenario2_world "new_RuleEvaluator scenario2_world default_options" fresh_store]
  note t2 = exit_code_semantics [of "fresh_store globalResultsCollector"
      "[AddMessage ''All good'' None None, AddWarning ''Just a warning'' None None]"
      scenario2_world "new_RuleEvaluator scenario2_world default_options" fresh_store]
  note d1 = mp [OF conjunct1 [OF conjunct2 [OF conjunct2 [OF conjunct2 [OF t1]]]] h1]
  note e2 = mp [OF conjunct1 [OF conjunct2 [OF conjunct2 [OF conjunct2 [OF conjunct2 [OF t2]]]]] h2]
  have r: "map_sum id exitCode (fst (runReview scenario2_world default_options fresh_store)) = Inr 1"
    by (simp add: runReview_def evaluate_def scenario2_evaluator scenario2_findReviewFile
          scenario2_validate scenario2_load executeReviewFile_def failing_rule_def dsl_fail_def
          addFailure_def reset_def fresh_store_def getExitCode_def hasFailures_def Let_def)
  show ?thesis
    using d1 e2 r by (simp add: z)
qed

end
